theory Spec2Isabelle
  imports Main "HOL-Library.Multiset"
begin

section \<open>The API gateway of NexusCMS: discovery cache, round robin, proxy\<close>

text \<open>
  The development embeds \<^verbatim>\<open>api-gateway/src/index.ts\<close> (in the source tree it follows
  the auth service in \<^verbatim>\<open>nexuscms/auth-service/src/index.ts\<close>): the in-memory service
  cache and its refresh, the round-robin selector, the JWT middleware and the proxy
  factory. Objects of type \<^verbatim>\<open>Record<string, T>\<close> are maps from strings. Timestamps are the
  integers that \<^verbatim>\<open>Date.now()\<close> returns. The outcome of every call that leaves the
  process (the registry fetch, the token verification, the proxied call) is an input of
  the function that makes the call.
\<close>

subsection \<open>Data\<close>

record ServiceInfo =
  id_s :: string
  name :: string
  host :: string
  port :: int
  url :: string
  status :: string
  lastHeartbeat :: int
  metadata :: "(string \<times> string) list option"

datatype error = NetworkError | TypeError

record gateway =
  serviceCache :: "string \<rightharpoonup> ServiceInfo list"
  lastCacheUpdate :: int
  serviceSelectors :: "string \<rightharpoonup> nat"

definition SERVICE_CACHE_TTL :: int where
  "SERVICE_CACHE_TTL = 60000"

definition REFRESH_INTERVAL :: int where
  "REFRESH_INTERVAL = 30000"

text \<open>The module starts with \<^verbatim>\<open>serviceCache = {}\<close>, \<^verbatim>\<open>lastCacheUpdate = 0\<close> and
  \<^verbatim>\<open>serviceSelectors = {}\<close>.\<close>

definition initialGateway :: gateway where
  "initialGateway = \<lparr>serviceCache = Map.empty, lastCacheUpdate = 0, serviceSelectors = Map.empty\<rparr>"

text \<open>
  The object literal \<^verbatim>\<open>{}\<close> inherits the members of \<^verbatim>\<open>Object.prototype\<close>. Reading
  one of these keys from an object that does not own it yields the inherited member, not
  \<^verbatim>\<open>undefined\<close>. A logical service name is a string that is none of them; the three
  names the gateway routes to are logical names.
\<close>

definition objectPrototypeKeys :: "string list" where
  "objectPrototypeKeys =
     [''constructor'', ''__defineGetter__'', ''__defineSetter__'', ''hasOwnProperty'',
      ''__lookupGetter__'', ''__lookupSetter__'', ''isPrototypeOf'', ''propertyIsEnumerable'',
      ''toString'', ''valueOf'', ''__proto__'', ''toLocaleString'']"

definition logicalName :: "string \<Rightarrow> bool" where
  "logicalName n \<longleftrightarrow> n \<notin> set objectPrototypeKeys"

subsection \<open>Refreshing the cache\<close>

text \<open>
  The grouping loop of \<^verbatim>\<open>refreshServiceCache\<close>. A service whose name is an inherited
  key finds a truthy inherited member, skips the initialisation and fails at
  \<^verbatim>\<open>push\<close>, which the member does not have.
\<close>

fun groupLoop :: "ServiceInfo list \<Rightarrow> (string \<rightharpoonup> ServiceInfo list) \<Rightarrow> error + (string \<rightharpoonup> ServiceInfo list)" where
  "groupLoop [] groupedServices = Inr groupedServices"
| "groupLoop (service # services) groupedServices =
     (let g1 = (if groupedServices (name service) = None \<and> logicalName (name service)
                then groupedServices(name service \<mapsto> [])
                else groupedServices)
      in case g1 (name service) of
           None \<Rightarrow> Inl TypeError
         | Some xs \<Rightarrow> groupLoop services (g1(name service \<mapsto> xs @ [service])))"

text \<open>
  \<^verbatim>\<open>refreshServiceCache\<close>, with the clock reading \<open>now\<close> and the outcome \<open>response\<close> of
  \<^verbatim>\<open>axios.get(SERVICE_REGISTRY_URL + '/services')\<close>. Whatever is thrown inside the
  \<^verbatim>\<open>try\<close> is caught and logged; the two module variables are assigned at the end of it.
\<close>

definition refreshServiceCache :: "int \<Rightarrow> error + ServiceInfo list \<Rightarrow> gateway \<Rightarrow> gateway" where
  "refreshServiceCache now response st =
     (if now - lastCacheUpdate st < SERVICE_CACHE_TTL then st
      else case response of
             Inl e \<Rightarrow> st
           | Inr services \<Rightarrow>
               (case groupLoop services Map.empty of
                  Inl e \<Rightarrow> st
                | Inr groupedServices \<Rightarrow>
                    st\<lparr>serviceCache := groupedServices, lastCacheUpdate := now\<rparr>))"

text \<open>The invariant of the loop: the map \<open>g\<close> it started from, with the services seen so
  far appended under their names.\<close>

definition merged :: "(string \<rightharpoonup> ServiceInfo list) \<Rightarrow> ServiceInfo list \<Rightarrow> (string \<rightharpoonup> ServiceInfo list)" where
  "merged g services =
     (\<lambda>n. if filter (\<lambda>s. name s = n) services = [] then g n
          else Some ((case g n of None \<Rightarrow> [] | Some xs \<Rightarrow> xs) @ filter (\<lambda>s. name s = n) services))"

text \<open>The map that holds, under each name, the listed services of that name in the order
  of the listing.\<close>

definition groupByName :: "ServiceInfo list \<Rightarrow> (string \<rightharpoonup> ServiceInfo list)" where
  "groupByName services =
     (\<lambda>n. if filter (\<lambda>s. name s = n) services = [] then None
          else Some (filter (\<lambda>s. name s = n) services))"

subsection \<open>Round robin\<close>

text \<open>
  The selector is a JavaScript number. It starts at 0 and grows by one per call, so it is
  a natural number; at \<open>2 ^ 53\<close> the increment rounds back to \<open>2 ^ 53\<close>.
\<close>

definition increment :: "nat \<Rightarrow> nat" where
  "increment c = (if c < 2 ^ 53 then c + 1 else c)"

definition getServiceInstance :: "string \<Rightarrow> gateway \<Rightarrow> ServiceInfo option \<times> gateway" where
  "getServiceInstance serviceName st =
     (let services = (case serviceCache st serviceName of None \<Rightarrow> [] | Some xs \<Rightarrow> xs)
      in if length services = 0 then (None, st)
         else
           let selector = (case serviceSelectors st serviceName of None \<Rightarrow> 0 | Some c \<Rightarrow> c);
               serviceIndex = selector mod length services
           in (Some (services ! serviceIndex),
               st\<lparr>serviceSelectors := (serviceSelectors st)(serviceName \<mapsto> increment selector)\<rparr>))"

definition selectorOf :: "gateway \<Rightarrow> string \<Rightarrow> nat" where
  "selectorOf st serviceName = (case serviceSelectors st serviceName of None \<Rightarrow> 0 | Some c \<Rightarrow> c)"

text \<open>Consecutive selections for one name, with nothing else touching the state.\<close>

fun selections :: "nat \<Rightarrow> string \<Rightarrow> gateway \<Rightarrow> ServiceInfo option list \<times> gateway" where
  "selections 0 serviceName st = ([], st)"
| "selections (Suc k) serviceName st =
     (case getServiceInstance serviceName st of
        (r, st1) \<Rightarrow> (case selections k serviceName st1 of (rs, st2) \<Rightarrow> (r # rs, st2)))"


subsection \<open>Requests, the token gate\<close>

text \<open>
  The payload of a verified token, as far as the gateway reads it: \<^verbatim>\<open>id\<close> and the
  optional \<^verbatim>\<open>roles\<close>. A request carries its URL, its headers under their lower-case
  names, and \<^verbatim>\<open>user\<close> once the token gate has accepted it.
\<close>

record principal =
  id_p :: string
  roles :: "string list option"

record request =
  originalUrl :: string
  headers :: "string \<rightharpoonup> string"
  user :: "principal option"

text \<open>What the original caller receives: \<open>Json s m\<close> is
  \<^verbatim>\<open>res.status(s).json({ error: m })\<close>; \<open>Relayed s b\<close> is the answer of the instance,
  status \<open>s\<close> and body \<open>b\<close>, passed on by the proxy.\<close>

datatype reply = Json nat string | Relayed nat string

datatype gate = Rejected reply | Next request

text \<open>\<^verbatim>\<open>String.prototype.split\<close> with a one-character separator.\<close>

fun split :: "char \<Rightarrow> string \<Rightarrow> string list" where
  "split c [] = [[]]"
| "split c (x # xs) =
     (if x = c then [] # split c xs
      else (case split c xs of [] \<Rightarrow> [[x]] | w # ws \<Rightarrow> (x # w) # ws))"

text \<open>Reading an array at an index: \<^verbatim>\<open>undefined\<close> beyond its end.\<close>

definition at :: "'a list \<Rightarrow> nat \<Rightarrow> 'a option" where
  "at xs i = (if i < length xs then Some (xs ! i) else None)"

text \<open>
  \<^verbatim>\<open>authenticateJWT\<close>. The parameter \<open>verify\<close> is \<^verbatim>\<open>jwt.verify(_, JWT_SECRET)\<close> at the
  time of the call: the decoded payload, or \<open>None\<close> where it throws. An empty string is
  falsy, like \<^verbatim>\<open>undefined\<close>.
\<close>

definition authenticateJWT :: "(string \<Rightarrow> principal option) \<Rightarrow> request \<Rightarrow> gate" where
  "authenticateJWT verify req =
     (case headers req ''authorization'' of
        None \<Rightarrow> Rejected (Json 401 ''Authorization header missing'')
      | Some authHeader \<Rightarrow>
          if authHeader = [] then Rejected (Json 401 ''Authorization header missing'')
          else
            (case at (split CHR '' '' authHeader) 1 of
               None \<Rightarrow> Rejected (Json 401 ''Token not provided'')
             | Some token \<Rightarrow>
                 if token = [] then Rejected (Json 401 ''Token not provided'')
                 else
                   (case verify token of
                      None \<Rightarrow> Rejected (Json 403 ''Invalid or expired token'')
                    | Some decoded \<Rightarrow> Next (req\<lparr>user := Some decoded\<rparr>))))"

subsection \<open>The proxy factory\<close>

text \<open>
  The pattern \<^verbatim>\<open>new RegExp(`^/api/${serviceName}`)\<close> matches exactly the strings that
  start with \<^verbatim>\<open>/api/\<close> and the name when the name holds no character that the pattern
  syntax reads specially. \<open>pathRewrite\<close> is the callback for such names.
\<close>

definition regexSpecial :: "char list" where
  "regexSpecial = [CHR 0x5C, CHR ''^'', CHR ''$'', CHR ''.'', CHR ''|'', CHR ''?'', CHR ''*'',
                   CHR ''+'', CHR ''('', CHR '')'', CHR ''['', CHR '']'', CHR ''{'', CHR ''}'']"

definition regexLiteral :: "string \<Rightarrow> bool" where
  "regexLiteral s \<longleftrightarrow> (\<forall>c \<in> set s. c \<notin> set regexSpecial)"

definition pathRewrite :: "string \<Rightarrow> string \<Rightarrow> string" where
  "pathRewrite serviceName path =
     (let pattern = ''/api/'' @ serviceName;
          newPath = (if take (length pattern) path = pattern
                     then drop (length pattern) path else path)
      in if newPath = [] then ''/'' else newPath)"

text \<open>Decimal digits of a number, as a template literal prints them.\<close>

fun showNat :: "nat \<Rightarrow> string" where
  "showNat n = (if n < 10 then [''0123456789'' ! n]
                else showNat (n div 10) @ [''0123456789'' ! (n mod 10)])"

declare showNat.simps [simp del]

definition showInt :: "int \<Rightarrow> string" where
  "showInt i = (if i < 0 then CHR ''-'' # showNat (nat (- i)) else showNat (nat i))"

text \<open>Reading the digits back; it shows that different numbers print differently.\<close>

definition digitOf :: "char \<Rightarrow> nat" where
  "digitOf c = length (takeWhile (\<lambda>d. d \<noteq> c) ''0123456789'')"

definition readNat :: "string \<Rightarrow> nat" where
  "readNat s = foldl (\<lambda>a c. 10 * a + digitOf c) 0 s"

text \<open>The request that the proxy library has prepared for the instance, handed to the
  hook before it is sent.\<close>

record proxyReq =
  reqMethod :: string
  path :: string
  outHeaders :: "string \<rightharpoonup> string"
  body :: string

definition setHeader :: "string \<Rightarrow> string \<Rightarrow> proxyReq \<Rightarrow> proxyReq" where
  "setHeader k v pr = pr\<lparr>outHeaders := (outHeaders pr)(k \<mapsto> v)\<rparr>"

text \<open>
  The hook \<^verbatim>\<open>onProxyReq\<close>. \<open>stringify\<close> is \<^verbatim>\<open>JSON.stringify\<close> on role lists, \<open>now\<close> is
  \<^verbatim>\<open>Date.now()\<close> and \<open>random\<close> is
  \<^verbatim>\<open>Math.random().toString(36).substring(2, 10)\<close>, both read only when the request
  brings no id.
\<close>

definition freshId :: "int \<Rightarrow> string \<Rightarrow> string" where
  "freshId now random = ''req-'' @ showInt now @ ''-'' @ random"

definition onProxyReq ::
  "(string list \<Rightarrow> string) \<Rightarrow> int \<Rightarrow> string \<Rightarrow> request \<Rightarrow> proxyReq \<Rightarrow> proxyReq" where
  "onProxyReq stringify now random req pr =
     (let correlationId =
            (case headers req ''x-correlation-id'' of
               None \<Rightarrow> freshId now random
             | Some v \<Rightarrow> if v = [] then freshId now random else v);
          pr1 = setHeader ''x-correlation-id'' correlationId pr
      in case user req of
           None \<Rightarrow> pr1
         | Some u \<Rightarrow>
             setHeader ''x-user-roles''
               (stringify (case roles u of None \<Rightarrow> [] | Some rs \<Rightarrow> rs))
               (setHeader ''x-user-id'' (id_p u) pr1))"

text \<open>
  The plain options that the handler passes to \<^verbatim>\<open>createProxyMiddleware\<close>; the callbacks
  \<open>pathRewrite\<close>, \<open>onProxyReq\<close> and \<open>onError\<close> are the functions of this section. The
  transport itself belongs to the proxy library.
\<close>

record options =
  target :: string
  changeOrigin :: bool
  logLevel :: string

definition proxyOptions :: "ServiceInfo \<Rightarrow> options" where
  "proxyOptions serviceInstance =
     \<lparr>target = url serviceInstance, changeOrigin = True, logLevel = ''silent''\<rparr>"













text \<open>
  How the call \<^verbatim>\<open>proxy(req, res, next)\<close> ends: the instance answers, the proxy reports
  an error (connection refused or reset, timeout) to \<^verbatim>\<open>onError\<close>, or the call throws
  into the handler's \<^verbatim>\<open>catch\<close>. The outcome depends on the options that the handler
  has passed.
\<close>

datatype proxied = Answered nat string | ProxyError | Thrown

definition onError :: reply where
  "onError = Json 500 ''Service communication error''"

text \<open>
  What one run of the handler meets: \<open>clockHandler\<close> is \<^verbatim>\<open>Date.now()\<close> in the handler's
  test of the cache age, \<open>clockRefresh\<close> is \<^verbatim>\<open>Date.now()\<close> inside the refresh it awaits,
  \<open>registry\<close> is the outcome of the fetch of that refresh, and \<open>proxied\<close> is the outcome
  of the proxied call.
\<close>

record world =
  clockHandler :: int
  clockRefresh :: int
  registry :: "error + ServiceInfo list"
  proxied :: "options \<Rightarrow> request \<Rightarrow> proxied"

text \<open>The first statement of the handler: the refresh is awaited when the cache is as
  old as the time to live.\<close>

definition refreshIfNeeded :: "world \<Rightarrow> gateway \<Rightarrow> gateway" where
  "refreshIfNeeded w st =
     (if clockHandler w - lastCacheUpdate st \<ge> SERVICE_CACHE_TTL
      then refreshServiceCache (clockRefresh w) (registry w) st
      else st)"

text \<open>The handler that \<^verbatim>\<open>createServiceProxy(serviceName)\<close> returns. The second parameter
  \<^verbatim>\<open>requiresAuth\<close> of the factory is never read.\<close>

definition createServiceProxy ::
  "string \<Rightarrow> request \<Rightarrow> world \<Rightarrow> gateway \<Rightarrow> reply \<times> gateway" where
  "createServiceProxy serviceName req w st =
     (case getServiceInstance serviceName (refreshIfNeeded w st) of
        (None, st2) \<Rightarrow> (Json 503 (''Service '' @ serviceName @ '' is not available''), st2)
      | (Some serviceInstance, st2) \<Rightarrow>
          (case proxied w (proxyOptions serviceInstance) req of
             Answered s b \<Rightarrow> (Relayed s b, st2)
           | ProxyError \<Rightarrow> (onError, st2)
           | Thrown \<Rightarrow> (Json 500 ''Gateway error'', st2)))"

text \<open>
  The \<open>x-correlation-id\<close> header of the reply that the caller receives. The handler and
  \<open>onError\<close> answer with \<^verbatim>\<open>res.status(..).json(..)\<close> and set no header, and the options
  hold no hook for the answer of the instance; a relayed reply carries the headers
  \<open>answerHeaders\<close> of that answer.
\<close>

definition replyCorrelationId ::
  "(string \<rightharpoonup> string) \<Rightarrow> string \<Rightarrow> request \<Rightarrow> world \<Rightarrow> gateway \<Rightarrow> string option" where
  "replyCorrelationId answerHeaders serviceName req w st =
     (case fst (createServiceProxy serviceName req w st) of
        Json s m \<Rightarrow> None
      | Relayed s b \<Rightarrow> answerHeaders ''x-correlation-id'')"

text \<open>A protected route: \<^verbatim>\<open>app.use(path, authenticateJWT, createServiceProxy(name))\<close>.\<close>

definition protectedRoute ::
  "(string \<Rightarrow> principal option) \<Rightarrow> string \<Rightarrow> request \<Rightarrow> world \<Rightarrow> gateway
     \<Rightarrow> reply \<times> gateway" where
  "protectedRoute verify serviceName req w st =
     (case authenticateJWT verify req of
        Rejected r \<Rightarrow> (r, st)
      | Next req1 \<Rightarrow> createServiceProxy serviceName req1 w st)"

text \<open>
  The routes of the gateway: the mount path, whether \<^verbatim>\<open>authenticateJWT\<close> stands before
  the proxy handler, and the service name given to the factory.
\<close>

definition routes :: "(string \<times> bool \<times> string) list" where
  "routes =
     [(''/api/auth'', False, ''auth-service''),
      (''/api/content/admin'', True, ''content-service''),
      (''/api/content'', False, ''content-service''),
      (''/admin'', True, ''frontend'')]"

text \<open>What happens to the gateway over time: proxied requests, and the refreshes that
  the start of the module and the timer (every \<open>REFRESH_INTERVAL\<close> milliseconds) make.\<close>

datatype event = Request string request world | Refresh int "error + ServiceInfo list"

fun run :: "event list \<Rightarrow> gateway \<Rightarrow> reply list \<times> gateway" where
  "run [] st = ([], st)"
| "run (Request serviceName req w # es) st =
     (case createServiceProxy serviceName req w st of
        (r, st1) \<Rightarrow> (case run es st1 of (rs, st2) \<Rightarrow> (r # rs, st2)))"
| "run (Refresh now response # es) st = run es (refreshServiceCache now response st)"

text \<open>Whether the refresh that a request awaits, or a timer refresh, replaces the cache.\<close>

definition refreshCompletes :: "int \<Rightarrow> error + ServiceInfo list \<Rightarrow> gateway \<Rightarrow> bool" where
  "refreshCompletes now response st \<longleftrightarrow>
     \<not> now - lastCacheUpdate st < SERVICE_CACHE_TTL \<and>
     (case response of
        Inl e \<Rightarrow> False
      | Inr services \<Rightarrow> (case groupLoop services Map.empty of Inl e \<Rightarrow> False | Inr g \<Rightarrow> True))"

text \<open>
  The events that can occur before any refresh has replaced the initial cache: requests
  for logical names whose awaited refresh does not complete, and timer refreshes that do
  not complete. \<open>notAvailable\<close> lists the 503 replies to the requests among them.
\<close>

definition coldEvent :: "event \<Rightarrow> bool" where
  "coldEvent e =
     (case e of
        Request serviceName req w \<Rightarrow>
          logicalName serviceName \<and>
          \<not> (clockHandler w - lastCacheUpdate initialGateway \<ge> SERVICE_CACHE_TTL \<and>
             refreshCompletes (clockRefresh w) (registry w) initialGateway)
      | Refresh now response \<Rightarrow> \<not> refreshCompletes now response initialGateway)"

fun notAvailable :: "event list \<Rightarrow> reply list" where
  "notAvailable [] = []"
| "notAvailable (Request serviceName req w # es) =
     Json 503 (''Service '' @ serviceName @ '' is not available'') # notAvailable es"
| "notAvailable (Refresh now response # es) = notAvailable es"

subsection \<open>Example data\<close>

definition instA :: ServiceInfo where
  "instA = \<lparr>id_s = ''a'', name = ''content-service'', host = ''10.0.0.1'', port = 3003,
            url = ''http://10.0.0.1:3003'', status = ''active'', lastHeartbeat = 1000,
            metadata = None\<rparr>"

definition instB :: ServiceInfo where
  "instB = \<lparr>id_s = ''b'', name = ''content-service'', host = ''10.0.0.2'', port = 3003,
            url = ''http://10.0.0.2:3003'', status = ''active'', lastHeartbeat = 1000,
            metadata = None\<rparr>"

definition instC :: ServiceInfo where
  "instC = \<lparr>id_s = ''c'', name = ''content-service'', host = ''10.0.0.3'', port = 3003,
            url = ''http://10.0.0.3:3003'', status = ''active'', lastHeartbeat = 1000,
            metadata = None\<rparr>"

text \<open>An instance that the registry lists with a status other than active.\<close>

definition instStale :: ServiceInfo where
  "instStale = instB\<lparr>status := ''stale''\<rparr>"

definition getPosts :: request where
  "getPosts = \<lparr>originalUrl = ''/api/content/posts'', headers = Map.empty, user = None\<rparr>"

definition withCorrelationId :: "string \<Rightarrow> request" where
  "withCorrelationId v =
     \<lparr>originalUrl = ''/api/content/posts'', headers = [''x-correlation-id'' \<mapsto> v], user = None\<rparr>"




definition cached :: "ServiceInfo list \<Rightarrow> int \<Rightarrow> gateway" where
  "cached xs t = \<lparr>serviceCache = [''content-service'' \<mapsto> xs], lastCacheUpdate = t,
                  serviceSelectors = Map.empty\<rparr>"

definition worldAt :: "int \<Rightarrow> error + ServiceInfo list \<Rightarrow> proxied \<Rightarrow> world" where
  "worldAt t response outcome =
     \<lparr>clockHandler = t, clockRefresh = t, registry = response, proxied = (\<lambda>opts req. outcome)\<rparr>"

text \<open>A verifier that accepts one token, and requests with an \<open>authorization\<close> header.\<close>

definition alice :: principal where
  "alice = \<lparr>id_p = ''u1'', roles = Some [''admin'']\<rparr>"

definition verifyExample :: "string \<Rightarrow> principal option" where
  "verifyExample token = (if token = ''good.jwt'' then Some alice else None)"

definition withAuthorization :: "string \<Rightarrow> request" where
  "withAuthorization h =
     \<lparr>originalUrl = ''/admin/dashboard'', headers = [''authorization'' \<mapsto> h], user = None\<rparr>"

section \<open>Properties\<close>

subsection \<open>The grouping loop\<close>

lemma merged_step:
  "merged (g(name s \<mapsto> (case g (name s) of None \<Rightarrow> [] | Some xs \<Rightarrow> xs) @ [s])) services
     = merged g (s # services)"
  by (rule ext) (simp add: merged_def split: option.splits)

lemma groupLoop_Inr:
  "\<forall>s \<in> set services. logicalName (name s) \<Longrightarrow> groupLoop services g = Inr (merged g services)"
proof (induction services arbitrary: g)
  case Nil
  show ?case by (simp add: merged_def)
next
  case (Cons s services)
  have ln: "logicalName (name s)" using Cons.prems by simp
  have rest: "\<forall>s \<in> set services. logicalName (name s)" using Cons.prems by simp
  show ?case
  proof (cases "g (name s)")
    case None
    have "groupLoop (s # services) g = groupLoop services (g(name s \<mapsto> [s]))"
      using None ln by simp
    also have "\<dots> = Inr (merged (g(name s \<mapsto> [s])) services)"
      by (rule Cons.IH[OF rest])
    also have "merged (g(name s \<mapsto> [s])) services = merged g (s # services)"
      using merged_step[of g s services] None by simp
    finally show ?thesis .
  next
    case (Some xs)
    have "groupLoop (s # services) g = groupLoop services (g(name s \<mapsto> xs @ [s]))"
      using Some by simp
    also have "\<dots> = Inr (merged (g(name s \<mapsto> xs @ [s])) services)"
      by (rule Cons.IH[OF rest])
    also have "merged (g(name s \<mapsto> xs @ [s])) services = merged g (s # services)"
      using merged_step[of g s services] Some by simp
    finally show ?thesis .
  qed
qed

lemma groupLoop_Inl:
  "\<exists>s \<in> set services. \<not> logicalName (name s) \<Longrightarrow> dom g \<inter> set objectPrototypeKeys = {}
   \<Longrightarrow> groupLoop services g = Inl TypeError"
proof (induction services arbitrary: g)
  case Nil
  then show ?case by simp
next
  case (Cons s services)
  show ?case
  proof (cases "logicalName (name s)")
    case False
    then have "g (name s) = None" using Cons.prems(2) by (auto simp: logicalName_def)
    then show ?thesis using False by simp
  next
    case True
    then have ex: "\<exists>s \<in> set services. \<not> logicalName (name s)" using Cons.prems(1) by auto
    have d: "dom (g(name s \<mapsto> v)) \<inter> set objectPrototypeKeys = {}" for v
      using Cons.prems(2) True by (auto simp: logicalName_def)
    show ?thesis
    proof (cases "g (name s)")
      case None
      then show ?thesis using True by (simp add: Cons.IH[OF ex d])
    next
      case (Some xs)
      then show ?thesis by (simp add: Cons.IH[OF ex d])
    qed
  qed
qed

lemma merged_empty: "merged Map.empty services = groupByName services"
  by (rule ext) (simp add: merged_def groupByName_def)

lemma groupLoop_empty:
  "groupLoop services Map.empty =
     (if \<forall>s \<in> set services. logicalName (name s) then Inr (groupByName services) else Inl TypeError)"
  using groupLoop_Inr[of services Map.empty] groupLoop_Inl[of services Map.empty]
  by (auto simp: merged_empty)

lemma refreshServiceCache_cases:
  "refreshServiceCache now response st =
     (if now - lastCacheUpdate st < SERVICE_CACHE_TTL then st
      else case response of
             Inl e \<Rightarrow> st
           | Inr services \<Rightarrow>
               if \<forall>s \<in> set services. logicalName (name s)
               then st\<lparr>serviceCache := groupByName services, lastCacheUpdate := now\<rparr>
               else st)"
  by (simp add: refreshServiceCache_def groupLoop_empty split: sum.splits)

lemma refreshCompletes_iff:
  "refreshCompletes now response st \<longleftrightarrow>
     \<not> now - lastCacheUpdate st < SERVICE_CACHE_TTL \<and>
     (case response of Inl e \<Rightarrow> False | Inr services \<Rightarrow> \<forall>s \<in> set services. logicalName (name s))"
  by (simp add: refreshCompletes_def groupLoop_empty split: sum.splits)

lemma logicalName_content [simp]: "logicalName ''content-service''"
  by (simp add: logicalName_def objectPrototypeKeys_def)

lemma name_examples [simp]:
  "name instA = ''content-service''" "name instB = ''content-service''"
  "name instC = ''content-service''" "name instStale = ''content-service''"
  by (simp_all add: instA_def instB_def instC_def instStale_def)

subsection \<open>One selection\<close>

lemma getServiceInstance_empty:
  "serviceCache st n = None \<or> serviceCache st n = Some [] \<Longrightarrow> getServiceInstance n st = (None, st)"
  by (auto simp: getServiceInstance_def)

lemma getServiceInstance_step:
  "serviceCache st n = Some xs \<Longrightarrow> xs \<noteq> [] \<Longrightarrow>
   getServiceInstance n st =
     (Some (xs ! (selectorOf st n mod length xs)),
      st\<lparr>serviceSelectors := (serviceSelectors st)(n \<mapsto> increment (selectorOf st n))\<rparr>)"
  by (simp add: getServiceInstance_def selectorOf_def Let_def)

lemma getServiceInstance_cache:
  "serviceCache (snd (getServiceInstance n st)) = serviceCache st"
  by (simp add: getServiceInstance_def Let_def)

lemma getServiceInstance_Some:
  "getServiceInstance n st = (Some i, st') \<Longrightarrow>
   \<exists>xs. serviceCache st n = Some xs \<and> i \<in> set xs"
  by (cases "serviceCache st n") (auto simp: getServiceInstance_def Let_def split: if_splits)

lemma selections_nth:
  "serviceCache st n = Some xs \<Longrightarrow> xs \<noteq> [] \<Longrightarrow> selectorOf st n + m \<le> 2 ^ 53 \<Longrightarrow>
   fst (selections m n st) =
     map (\<lambda>i. Some (xs ! ((selectorOf st n + i) mod length xs))) [0..<m]"
proof (induction m arbitrary: st)
  case 0
  show ?case by simp
next
  case (Suc m)
  let ?c = "selectorOf st n"
  let ?st1 = "st\<lparr>serviceSelectors := (serviceSelectors st)(n \<mapsto> increment ?c)\<rparr>"
  have lt: "?c < 2 ^ 53" using Suc.prems(3) by simp
  have step: "getServiceInstance n st = (Some (xs ! (?c mod length xs)), ?st1)"
    by (rule getServiceInstance_step[OF Suc.prems(1,2)])
  have c1: "selectorOf ?st1 n = ?c + 1"
    using lt by (simp add: selectorOf_def increment_def)
  have cache1: "serviceCache ?st1 n = Some xs" using Suc.prems(1) by simp
  have bound1: "selectorOf ?st1 n + m \<le> 2 ^ 53" using Suc.prems(3) c1 by simp
  have ih: "fst (selections m n ?st1) =
      map (\<lambda>i. Some (xs ! ((?c + 1 + i) mod length xs))) [0..<m]"
    using Suc.IH[OF cache1 Suc.prems(2) bound1] c1 by simp
  have "fst (selections (Suc m) n st) = Some (xs ! (?c mod length xs)) # fst (selections m n ?st1)"
    by (simp add: step split: prod.splits)
  also have "\<dots> = map (\<lambda>i. Some (xs ! ((?c + i) mod length xs))) [0..<Suc m]"
    by (simp only: ih map_upt_Suc) simp
  finally show ?case .
qed

lemma selections_cache:
  "serviceCache (snd (selections m n st)) = serviceCache st"
proof (induction m arbitrary: st)
  case 0
  show ?case by simp
next
  case (Suc m)
  obtain r st1 where g: "getServiceInstance n st = (r, st1)" by (cases "getServiceInstance n st")
  have "serviceCache st1 = serviceCache st"
    using getServiceInstance_cache[of n st] g by simp
  moreover obtain rs st2 where s: "selections m n st1 = (rs, st2)" by (cases "selections m n st1")
  ultimately show ?case using Suc.IH[of st1] g by simp
qed

lemma mset_rotated: "mset (rotate c xs) = mset xs"
proof -
  have "mset (drop k xs @ take k xs) = mset (take k xs @ drop k xs)" for k
    by (simp only: mset_append add.commute)
  then show ?thesis by (simp add: rotate_drop_take)
qed

lemma rotation_as_map:
  "xs \<noteq> [] \<Longrightarrow> map (\<lambda>i. xs ! ((c + i) mod length xs)) [0..<length xs] = rotate c xs"
  by (rule nth_equalityI) (simp_all add: nth_rotate)

lemma selections_visit_all:
  assumes "serviceCache st n = Some xs" and "x \<in> set xs"
    and "selectorOf st n + length xs \<le> 2 ^ 53"
  shows "Some x \<in> set (fst (selections (length xs) n st))"
proof -
  have ne: "xs \<noteq> []" using assms(2) by auto
  have "fst (selections (length xs) n st) =
      map Some (map (\<lambda>i. xs ! ((selectorOf st n + i) mod length xs)) [0..<length xs])"
    using selections_nth[OF assms(1) ne assms(3)] by simp
  then have "fst (selections (length xs) n st) = map Some (rotate (selectorOf st n) xs)"
    by (simp only: rotation_as_map[OF ne])
  then show ?thesis using assms(2) by simp
qed

lemma status_examples [simp]:
  "status instA = ''active''" "status instB = ''active''"
  "status instC = ''active''" "status instStale = ''stale''"
  by (simp_all add: instA_def instB_def instC_def instStale_def)

lemma url_examples [simp]:
  "url instA = ''http://10.0.0.1:3003''" "url instB = ''http://10.0.0.2:3003''"
  "url instC = ''http://10.0.0.3:3003''" "url instStale = ''http://10.0.0.2:3003''"
  by (simp_all add: instA_def instB_def instC_def instStale_def)

lemma cached_simps [simp]:
  "serviceCache (cached xs t) = [''content-service'' \<mapsto> xs]"
  "lastCacheUpdate (cached xs t) = t"
  "serviceSelectors (cached xs t) = Map.empty"
  by (simp_all add: cached_def)

lemma worldAt_simps [simp]:
  "clockHandler (worldAt t response outcome) = t"
  "clockRefresh (worldAt t response outcome) = t"
  "registry (worldAt t response outcome) = response"
  "proxied (worldAt t response outcome) opts req = outcome"
  by (simp_all add: worldAt_def)

lemma initialGateway_simps [simp]:
  "serviceCache initialGateway = Map.empty"
  "lastCacheUpdate initialGateway = 0"
  "serviceSelectors initialGateway = Map.empty"
  by (simp_all add: initialGateway_def)

subsection \<open>The handler\<close>

lemma refreshServiceCache_incomplete:
  "\<not> refreshCompletes now response st \<Longrightarrow> refreshServiceCache now response st = st"
  by (cases response) (auto simp: refreshServiceCache_cases refreshCompletes_iff)

lemma refreshServiceCache_complete:
  "refreshCompletes now (Inr services) st \<Longrightarrow>
   refreshServiceCache now (Inr services) st =
     st\<lparr>serviceCache := groupByName services, lastCacheUpdate := now\<rparr>"
  by (simp add: refreshServiceCache_cases refreshCompletes_iff)

lemma refreshIfNeeded_fresh:
  "clockHandler w - lastCacheUpdate st < SERVICE_CACHE_TTL \<Longrightarrow> refreshIfNeeded w st = st"
  by (simp add: refreshIfNeeded_def)

lemma refreshIfNeeded_stale:
  "SERVICE_CACHE_TTL \<le> clockHandler w - lastCacheUpdate st \<Longrightarrow>
   refreshIfNeeded w st = refreshServiceCache (clockRefresh w) (registry w) st"
  by (simp add: refreshIfNeeded_def)

lemma createServiceProxy_None:
  "getServiceInstance n (refreshIfNeeded w st) = (None, st2) \<Longrightarrow>
   createServiceProxy n req w st = (Json 503 (''Service '' @ n @ '' is not available''), st2)"
  by (simp add: createServiceProxy_def)

lemma createServiceProxy_Some:
  "getServiceInstance n (refreshIfNeeded w st) = (Some i, st2) \<Longrightarrow>
   createServiceProxy n req w st =
     (case proxied w (proxyOptions i) req of
        Answered s b \<Rightarrow> (Relayed s b, st2)
      | ProxyError \<Rightarrow> (Json 500 ''Service communication error'', st2)
      | Thrown \<Rightarrow> (Json 500 ''Gateway error'', st2))"
  by (simp add: createServiceProxy_def onError_def split: proxied.splits)

subsection \<open>Printed numbers and fresh ids\<close>

lemma digitOf_digit: "d < 10 \<Longrightarrow> digitOf (''0123456789'' ! d) = d"
proof -
  assume "d < 10"
  then have "d = 0 \<or> d = 1 \<or> d = 2 \<or> d = 3 \<or> d = 4 \<or> d = 5 \<or> d = 6 \<or> d = 7 \<or> d = 8 \<or> d = 9"
    by arith
  then show ?thesis by (elim disjE) (simp_all add: digitOf_def)
qed

lemma digit_not_dash: "d < 10 \<Longrightarrow> ''0123456789'' ! d \<noteq> CHR ''-''"
proof -
  assume "d < 10"
  then have "d = 0 \<or> d = 1 \<or> d = 2 \<or> d = 3 \<or> d = 4 \<or> d = 5 \<or> d = 6 \<or> d = 7 \<or> d = 8 \<or> d = 9"
    by arith
  then show ?thesis by (elim disjE) simp_all
qed

lemma readNat_snoc: "readNat (s @ [c]) = 10 * readNat s + digitOf c"
  by (simp add: readNat_def)

lemma readNat_showNat: "readNat (showNat n) = n"
proof (induction n rule: showNat.induct)
  case (1 n)
  show ?case
  proof (cases "n < 10")
    case True
    then show ?thesis by (simp add: showNat.simps[of n] readNat_def digitOf_digit)
  next
    case False
    then have "readNat (showNat n) = 10 * readNat (showNat (n div 10)) + digitOf (''0123456789'' ! (n mod 10))"
      by (subst showNat.simps) (simp add: readNat_snoc)
    then show ?thesis using 1 False by (simp add: digitOf_digit)
  qed
qed

lemma showNat_no_dash: "CHR ''-'' \<notin> set (showNat n)"
proof (induction n rule: showNat.induct)
  case (1 n)
  show ?case
  proof (cases "n < 10")
    case True
    then show ?thesis using digit_not_dash[of n] by (simp add: showNat.simps[of n])
  next
    case False
    then show ?thesis using 1 digit_not_dash[of "n mod 10"]
      by (subst showNat.simps) simp
  qed
qed

lemma showNat_nonempty: "showNat n \<noteq> []"
  by (subst showNat.simps) simp

lemma showInt_inj: "showInt i = showInt j \<Longrightarrow> i = j"
proof -
  assume e: "showInt i = showInt j"
  have hdn: "hd (showNat n) \<noteq> CHR ''-''" for n
    using showNat_no_dash[of n] showNat_nonempty[of n] by (cases "showNat n") auto
  show ?thesis
  proof (cases "i < 0")
    case True
    show ?thesis
    proof (cases "j < 0")
      case True
      with \<open>i < 0\<close> e have "showNat (nat (- i)) = showNat (nat (- j))" by (simp add: showInt_def)
      then have "nat (- i) = nat (- j)" using readNat_showNat by metis
      then show ?thesis using True \<open>i < 0\<close> by simp
    next
      case False
      with \<open>i < 0\<close> e have "CHR ''-'' # showNat (nat (- i)) = showNat (nat j)" by (simp add: showInt_def)
      then show ?thesis using hdn[of "nat j"] by (metis list.sel(1))
    qed
  next
    case False
    show ?thesis
    proof (cases "j < 0")
      case True
      with \<open>\<not> i < 0\<close> e have "showNat (nat i) = CHR ''-'' # showNat (nat (- j))" by (simp add: showInt_def)
      then show ?thesis using hdn[of "nat i"] by (metis list.sel(1))
    next
      case False
      with \<open>\<not> i < 0\<close> e have "showNat (nat i) = showNat (nat j)" by (simp add: showInt_def)
      then have "nat i = nat j" using readNat_showNat by metis
      then show ?thesis using False \<open>\<not> i < 0\<close> by simp
    qed
  qed
qed

lemma split_at_last:
  "xs @ c # r1 = ys @ c # r2 \<Longrightarrow> c \<notin> set r1 \<Longrightarrow> c \<notin> set r2 \<Longrightarrow> xs = ys \<and> r1 = r2"
proof -
  assume e: "xs @ c # r1 = ys @ c # r2" and n1: "c \<notin> set r1" and n2: "c \<notin> set r2"
  have "rev (xs @ c # r1) = rev (ys @ c # r2)" using e by simp
  then have r: "rev r1 @ c # rev xs = rev r2 @ c # rev ys" by simp
  have "takeWhile (\<lambda>d. d \<noteq> c) (rev r1 @ c # rev xs) = rev r1"
    using n1 by (subst takeWhile_append2) auto
  moreover have "takeWhile (\<lambda>d. d \<noteq> c) (rev r2 @ c # rev ys) = rev r2"
    using n2 by (subst takeWhile_append2) auto
  ultimately have "rev r1 = rev r2" using r by simp
  then show ?thesis using e by simp
qed

lemma freshId_inj:
  "freshId n1 r1 = freshId n2 r2 \<Longrightarrow> CHR ''-'' \<notin> set r1 \<Longrightarrow> CHR ''-'' \<notin> set r2 \<Longrightarrow> n1 = n2 \<and> r1 = r2"
  using split_at_last[of "showInt n1" "CHR ''-''" r1 "showInt n2" r2] showInt_inj
  by (auto simp: freshId_def)

subsection \<open>The hook and the token gate\<close>

lemma onProxyReq_correlation:
  "outHeaders (onProxyReq stringify now random req pr) ''x-correlation-id'' =
     Some (case headers req ''x-correlation-id'' of
             None \<Rightarrow> freshId now random
           | Some v \<Rightarrow> if v = [] then freshId now random else v)"
  by (simp add: onProxyReq_def setHeader_def Let_def split: option.splits)



lemma onProxyReq_identity:
  "user req = Some p \<Longrightarrow>
   outHeaders (onProxyReq stringify now random req pr) ''x-user-id'' = Some (id_p p) \<and>
   outHeaders (onProxyReq stringify now random req pr) ''x-user-roles'' =
     Some (stringify (case roles p of None \<Rightarrow> [] | Some rs \<Rightarrow> rs))"
  by (simp add: onProxyReq_def setHeader_def Let_def)


lemma split_nonempty: "split c s \<noteq> []"
  by (induction s) (auto split: list.splits)

lemma split_no_separator: "c \<notin> set s \<Longrightarrow> split c s = [s]"
  by (induction s) auto

lemma split_second:
  "c \<notin> set scheme \<Longrightarrow> c \<notin> set t \<Longrightarrow> at (split c (scheme @ c # t)) 1 = Some t"
proof (induction scheme)
  case Nil
  then show ?case by (simp add: at_def split_no_separator)
next
  case (Cons x scheme)
  then have ih: "at (split c (scheme @ c # t)) 1 = Some t" by simp
  obtain w ws where s: "split c (scheme @ c # t) = w # ws"
    using split_nonempty[of c "scheme @ c # t"] by (cases "split c (scheme @ c # t)") auto
  have "x \<noteq> c" using Cons.prems(1) by auto
  then have "split c ((x # scheme) @ c # t) = (x # w) # ws" using s by simp
  then show ?case using ih s by (auto simp: at_def split: if_splits)
qed

subsection \<open>The outbound request and the reply headers\<close>











lemma replyCorrelationId_Json:
  "fst (createServiceProxy n req w st) = Json s m \<Longrightarrow>
   replyCorrelationId answerHeaders n req w st = None"
  by (simp add: replyCorrelationId_def)

lemma replyCorrelationId_Relayed:
  "fst (createServiceProxy n req w st) = Relayed s b \<Longrightarrow>
   replyCorrelationId answerHeaders n req w st = answerHeaders ''x-correlation-id''"
  by (simp add: replyCorrelationId_def)

subsection \<open>Selection and status\<close>

text \<open>
  Claim C1, as the code has it. Neither the refresh nor the selection looks at the status
  of an instance. A refresh that completes caches, under each logical name, every service
  the registry listed with that name, in the order of the listing. A selection returns an
  element of the list cached for the name, and \<open>length xs\<close> consecutive selections return
  every cached instance, active or not. A selected instance is active when all the
  instances cached for the name are.
\<close>

theorem selection_reads_whole_cache:
  assumes "logicalName n"
  shows "(refreshCompletes now (Inr services) st \<longrightarrow>
            serviceCache (refreshServiceCache now (Inr services) st) n =
              (if filter (\<lambda>s. name s = n) services = [] then None
               else Some (filter (\<lambda>s. name s = n) services)))
       \<and> (getServiceInstance n st = (Some i, st') \<longrightarrow>
            (\<exists>xs. serviceCache st n = Some xs \<and> i \<in> set xs))
       \<and> (serviceCache st n = Some xs \<and> x \<in> set xs \<and> selectorOf st n + length xs \<le> 2 ^ 53 \<longrightarrow>
            Some x \<in> set (fst (selections (length xs) n st)))
       \<and> (getServiceInstance n st = (Some i, st') \<longrightarrow>
            (\<forall>ys. serviceCache st n = Some ys \<longrightarrow> (\<forall>s \<in> set ys. status s = ''active'')) \<longrightarrow>
            status i = ''active'')"
proof -
  have a: "refreshCompletes now (Inr services) st \<longrightarrow>
            serviceCache (refreshServiceCache now (Inr services) st) n =
              (if filter (\<lambda>s. name s = n) services = [] then None
               else Some (filter (\<lambda>s. name s = n) services))"
    by (simp add: refreshServiceCache_cases refreshCompletes_iff groupByName_def)
  have b: "getServiceInstance n st = (Some i, st') \<longrightarrow>
            (\<exists>xs. serviceCache st n = Some xs \<and> i \<in> set xs)"
    using getServiceInstance_Some by blast
  have c: "serviceCache st n = Some xs \<and> x \<in> set xs \<and> selectorOf st n + length xs \<le> 2 ^ 53 \<longrightarrow>
            Some x \<in> set (fst (selections (length xs) n st))"
    using selections_visit_all by blast
  have d: "getServiceInstance n st = (Some i, st') \<longrightarrow>
            (\<forall>ys. serviceCache st n = Some ys \<longrightarrow> (\<forall>s \<in> set ys. status s = ''active'')) \<longrightarrow>
            status i = ''active''"
    using getServiceInstance_Some by blast
  from a b c d show ?thesis by blast
qed

theorem selection_reads_whole_cache_witness:
  "logicalName ''content-service''
   \<and> refreshCompletes 100000 (Inr [instA, instStale]) initialGateway
   \<and> serviceCache (refreshServiceCache 100000 (Inr [instA, instStale]) initialGateway)
        ''content-service'' = Some [instA, instStale]
   \<and> getServiceInstance ''content-service'' (cached [instA] 0) =
        (Some instA, (cached [instA] 0)\<lparr>serviceSelectors := [''content-service'' \<mapsto> 1]\<rparr>)
   \<and> status instA = ''active''
   \<and> Some instStale \<in> set (fst (selections 2 ''content-service'' (cached [instA, instStale] 0)))"
proof -
  let ?n = "''content-service''"
  have h: "refreshCompletes 100000 (Inr [instA, instStale]) initialGateway"
    by (simp add: refreshCompletes_iff SERVICE_CACHE_TTL_def)
  have g: "getServiceInstance ?n (cached [instA] 0) =
        (Some instA, (cached [instA] 0)\<lparr>serviceSelectors := [?n \<mapsto> 1]\<rparr>)"
    by (simp add: getServiceInstance_def increment_def)
  have r: "serviceCache (refreshServiceCache 100000 (Inr [instA, instStale]) initialGateway) ?n
        = Some [instA, instStale]"
    using selection_reads_whole_cache[OF logicalName_content,
        of 100000 "[instA, instStale]" initialGateway] h
    by simp
  have act: "status instA = ''active''"
    using selection_reads_whole_cache[OF logicalName_content,
        of _ _ "cached [instA] 0" instA "(cached [instA] 0)\<lparr>serviceSelectors := [?n \<mapsto> 1]\<rparr>"] g
    by simp
  have p: "serviceCache (cached [instA, instStale] 0) ?n = Some [instA, instStale]
      \<and> instStale \<in> set [instA, instStale]
      \<and> selectorOf (cached [instA, instStale] 0) ?n + length [instA, instStale] \<le> 2 ^ 53"
    by (simp add: selectorOf_def)
  have l: "length [instA, instStale] = 2" by simp
  have "Some instStale \<in> set (fst (selections (length [instA, instStale]) ?n
      (cached [instA, instStale] 0)))"
    using selection_reads_whole_cache[OF logicalName_content,
        of _ _ "cached [instA, instStale] 0" _ _ "[instA, instStale]" instStale] p
    by blast
  then have v: "Some instStale \<in> set (fst (selections 2 ?n (cached [instA, instStale] 0)))"
    by (simp only: l)
  from logicalName_content h r g act v show ?thesis by blast
qed

text \<open>
  The claim as the specification words it fails: the registry lists a stale instance, the
  refresh caches it, and the selection returns it.
\<close>

theorem selection_active_only_counterexample:
  "serviceCache (refreshServiceCache 100000 (Inr [instStale]) initialGateway)
     ''content-service'' = Some [instStale]
   \<and> fst (getServiceInstance ''content-service''
            (refreshServiceCache 100000 (Inr [instStale]) initialGateway)) = Some instStale
   \<and> status instStale \<noteq> ''active''"
proof -
  have c: "serviceCache (refreshServiceCache 100000 (Inr [instStale]) initialGateway)
     ''content-service'' = Some [instStale]"
    by (simp add: refreshServiceCache_cases SERVICE_CACHE_TTL_def groupByName_def)
  have s: "fst (getServiceInstance ''content-service''
            (refreshServiceCache 100000 (Inr [instStale]) initialGateway)) = Some instStale"
    by (simp add: getServiceInstance_def Let_def c)
  from c s show ?thesis by simp
qed

subsection \<open>Refresh\<close>

text \<open>
  Claim C2. A refresh is all or nothing. When the fetch from the registry fails, the state
  is the one before (first and last conjunct: in \<open>refreshServiceCache\<close>, and in the
  handler's awaited refresh), so every later lookup reads the prior snapshot. Whatever the
  response, the state after is either the state before or the state before with the whole
  cache replaced by the grouping of the fetched list and the timestamp set to the clock
  reading; the new cache does not depend on the old one. When the refresh completes it is
  this replacement, and when it does not the state is unchanged.
\<close>

theorem refresh_all_or_nothing:
  "refreshServiceCache now (Inl e) st = st
   \<and> (refreshServiceCache now response st = st
       \<or> (\<exists>services. response = Inr services \<and>
             refreshServiceCache now response st =
               st\<lparr>serviceCache := groupByName services, lastCacheUpdate := now\<rparr>))
   \<and> (refreshCompletes now (Inr services) st \<longrightarrow>
         refreshServiceCache now (Inr services) st =
           st\<lparr>serviceCache := groupByName services, lastCacheUpdate := now\<rparr>)
   \<and> (\<not> refreshCompletes now response st \<longrightarrow> refreshServiceCache now response st = st)
   \<and> (registry w = Inl e \<longrightarrow> refreshIfNeeded w st = st)"
proof -
  have a: "refreshServiceCache now (Inl e) st = st"
    by (simp add: refreshServiceCache_cases)
  have b: "refreshServiceCache now response st = st
       \<or> (\<exists>services. response = Inr services \<and>
             refreshServiceCache now response st =
               st\<lparr>serviceCache := groupByName services, lastCacheUpdate := now\<rparr>)"
    by (cases response) (simp_all add: refreshServiceCache_cases)
  have c: "refreshCompletes now (Inr services) st \<longrightarrow>
         refreshServiceCache now (Inr services) st =
           st\<lparr>serviceCache := groupByName services, lastCacheUpdate := now\<rparr>"
    by (simp add: refreshServiceCache_cases refreshCompletes_iff)
  have d: "\<not> refreshCompletes now response st \<longrightarrow> refreshServiceCache now response st = st"
    by (cases response) (simp_all add: refreshServiceCache_cases refreshCompletes_iff)
  have e: "registry w = Inl e \<longrightarrow> refreshIfNeeded w st = st"
    by (simp add: refreshIfNeeded_def refreshServiceCache_cases)
  from a b c d e show ?thesis by blast
qed

theorem refresh_all_or_nothing_witness:
  "refreshCompletes 100000 (Inr [instA]) (cached [instB, instC] 0)
   \<and> refreshServiceCache 100000 (Inr [instA]) (cached [instB, instC] 0) =
       (cached [instB, instC] 0)\<lparr>serviceCache := groupByName [instA], lastCacheUpdate := 100000\<rparr>
   \<and> serviceCache (refreshServiceCache 100000 (Inr [instA]) (cached [instB, instC] 0))
        ''content-service'' = Some [instA]
   \<and> \<not> refreshCompletes 100000 (Inl NetworkError) (cached [instB, instC] 0)
   \<and> registry (worldAt 100000 (Inl NetworkError) ProxyError) = Inl NetworkError
   \<and> refreshIfNeeded (worldAt 100000 (Inl NetworkError) ProxyError) (cached [instB, instC] 0) =
       cached [instB, instC] 0"
proof -
  have h: "refreshCompletes 100000 (Inr [instA]) (cached [instB, instC] 0)"
    by (simp add: refreshCompletes_iff cached_def SERVICE_CACHE_TTL_def)
  have n: "\<not> refreshCompletes 100000 (Inl NetworkError) (cached [instB, instC] 0)"
    by (simp add: refreshCompletes_iff)
  have r: "registry (worldAt 100000 (Inl NetworkError) ProxyError) = Inl NetworkError"
    by (simp add: worldAt_def)
  note t = refresh_all_or_nothing[of 100000 NetworkError "cached [instB, instC] 0" "Inr [instA]" "[instA]"
      "worldAt 100000 (Inl NetworkError) ProxyError"]
  from t h have 1: "refreshServiceCache 100000 (Inr [instA]) (cached [instB, instC] 0) =
       (cached [instB, instC] 0)\<lparr>serviceCache := groupByName [instA], lastCacheUpdate := 100000\<rparr>"
    by blast
  from t r have 2: "refreshIfNeeded (worldAt 100000 (Inl NetworkError) ProxyError) (cached [instB, instC] 0) =
       cached [instB, instC] 0" by blast
  have 3: "serviceCache (refreshServiceCache 100000 (Inr [instA]) (cached [instB, instC] 0))
        ''content-service'' = Some [instA]"
    by (simp add: 1 groupByName_def)
  from h n r 1 2 3 show ?thesis by blast
qed

subsection \<open>Rotation\<close>

text \<open>
  Claim C3. While the cache holds the same non-empty list \<open>xs\<close> for a logical name, the
  \<open>i\<close>-th of \<open>m\<close> consecutive selections returns the instance at index
  \<open>(cursor + i) mod length xs\<close>, the cursor growing by one per call, and the cache is not
  touched. Hence \<open>length xs\<close> consecutive selections return the list rotated by the
  cursor, which holds every instance exactly as often as the list does; from a cursor
  that is a multiple of the length, such as the initial one, they return the list itself,
  in the order of registration. The cursor is a JavaScript number, exact below
  \<open>2 ^ 53\<close>.
\<close>

theorem round_robin_rotation:
  assumes "logicalName n"
    and "serviceCache st n = Some xs"
    and "xs \<noteq> []"
    and "selectorOf st n + m \<le> 2 ^ 53"
  shows "fst (selections m n st) =
           map (\<lambda>i. Some (xs ! ((selectorOf st n + i) mod length xs))) [0..<m]
       \<and> serviceCache (snd (selections m n st)) = serviceCache st
       \<and> (m = length xs \<longrightarrow>
            fst (selections m n st) = map Some (rotate (selectorOf st n) xs)
          \<and> mset (fst (selections m n st)) = mset (map Some xs))
       \<and> (m = length xs \<longrightarrow> selectorOf st n mod length xs = 0 \<longrightarrow>
            fst (selections m n st) = map Some xs)"
proof -
  have nth: "fst (selections m n st) =
      map (\<lambda>i. Some (xs ! ((selectorOf st n + i) mod length xs))) [0..<m]"
    by (rule selections_nth[OF assms(2,3,4)])
  have rot: "fst (selections m n st) = map Some (rotate (selectorOf st n) xs)" if "m = length xs"
  proof -
    have "fst (selections m n st) =
        map Some (map (\<lambda>i. xs ! ((selectorOf st n + i) mod length xs)) [0..<length xs])"
      using nth that by simp
    then show ?thesis by (simp only: rotation_as_map[OF assms(3)])
  qed
  have ms: "mset (fst (selections m n st)) = mset (map Some xs)" if "m = length xs"
    using rot[OF that] by (simp add: mset_rotated)
  have same: "fst (selections m n st) = map Some xs"
    if "m = length xs" "selectorOf st n mod length xs = 0"
    using rot[OF that(1)] that(2) by simp
  from nth selections_cache[of m n st] rot ms same show ?thesis by blast
qed

theorem round_robin_rotation_witness:
  "logicalName ''content-service''
   \<and> serviceCache (cached [instA, instB, instC] 0) ''content-service'' = Some [instA, instB, instC]
   \<and> selectorOf (cached [instA, instB, instC] 0) ''content-service'' + 4 \<le> 2 ^ 53
   \<and> fst (selections 4 ''content-service'' (cached [instA, instB, instC] 0)) =
       [Some instA, Some instB, Some instC, Some instA]
   \<and> fst (selections 3 ''content-service'' (cached [instA, instB, instC] 0)) =
       [Some instA, Some instB, Some instC]"
proof -
  let ?st = "cached [instA, instB, instC] 0"
  have c: "serviceCache ?st ''content-service'' = Some [instA, instB, instC]"
    by (simp add: cached_def)
  have s: "selectorOf ?st ''content-service'' = 0"
    by (simp add: cached_def selectorOf_def)
  have b4: "selectorOf ?st ''content-service'' + 4 \<le> 2 ^ 53" by (simp add: s)
  have b3: "selectorOf ?st ''content-service'' + 3 \<le> 2 ^ 53" by (simp add: s)
  have u4: "[0..<4] = [0, 1, 2, 3::nat]" by (simp add: upt_rec)
  have u3: "[0..<3] = [0, 1, 2::nat]" by (simp add: upt_rec)
  have four: "fst (selections 4 ''content-service'' ?st) =
      [Some instA, Some instB, Some instC, Some instA]"
    using round_robin_rotation[OF logicalName_content c _ b4] by (simp add: s u4)
  have three: "fst (selections 3 ''content-service'' ?st) =
      [Some instA, Some instB, Some instC]"
    using round_robin_rotation[OF logicalName_content c _ b3] by (simp add: s u3)
  from logicalName_content c b4 four three show ?thesis by blast
qed

subsection \<open>No instance\<close>

text \<open>
  Claim C4, as the code has it. When, after the handler's first statement, the cache holds
  no instance at all for a logical name, \<open>getServiceInstance\<close> returns null without
  touching the state and the handler answers 503 with the message that the service is not
  available. A reply is relayed from an instance only when the selection returned one, and
  that instance is the target.
\<close>

theorem no_cached_instance_503:
  assumes "logicalName n"
  shows "(serviceCache (refreshIfNeeded w st) n = None \<or> serviceCache (refreshIfNeeded w st) n = Some [] \<longrightarrow>
            getServiceInstance n (refreshIfNeeded w st) = (None, refreshIfNeeded w st)
          \<and> createServiceProxy n req w st =
              (Json 503 (''Service '' @ n @ '' is not available''), refreshIfNeeded w st))
       \<and> (fst (createServiceProxy n req w st) = Relayed s b \<longrightarrow>
            (\<exists>i xs. fst (getServiceInstance n (refreshIfNeeded w st)) = Some i
                  \<and> serviceCache (refreshIfNeeded w st) n = Some xs \<and> i \<in> set xs
                  \<and> proxied w (proxyOptions i) req = Answered s b))"
proof -
  let ?st1 = "refreshIfNeeded w st"
  have a: "serviceCache ?st1 n = None \<or> serviceCache ?st1 n = Some [] \<longrightarrow>
            getServiceInstance n ?st1 = (None, ?st1)
          \<and> createServiceProxy n req w st = (Json 503 (''Service '' @ n @ '' is not available''), ?st1)"
    by (auto simp: createServiceProxy_def getServiceInstance_empty)
  have b: "\<exists>i xs. fst (getServiceInstance n ?st1) = Some i
                  \<and> serviceCache ?st1 n = Some xs \<and> i \<in> set xs
                  \<and> proxied w (proxyOptions i) req = Answered s b"
    if r: "fst (createServiceProxy n req w st) = Relayed s b"
  proof -
    obtain o1 st2 where g: "getServiceInstance n ?st1 = (o1, st2)"
      by (cases "getServiceInstance n ?st1")
    show ?thesis
    proof (cases o1)
      case None
      then show ?thesis using r g by (simp add: createServiceProxy_def)
    next
      case (Some i)
      then have p: "proxied w (proxyOptions i) req = Answered s b"
        using r g by (simp add: createServiceProxy_def onError_def split: proxied.splits)
      obtain xs where "serviceCache ?st1 n = Some xs" "i \<in> set xs"
        using getServiceInstance_Some[of n ?st1 i st2] g Some by auto
      then show ?thesis using g Some p by auto
    qed
  qed
  from a b show ?thesis by blast
qed

theorem no_cached_instance_503_witness:
  "logicalName ''content-service''
   \<and> serviceCache (refreshIfNeeded (worldAt 100000 (Inl NetworkError) (Answered 200 ''ok''))
        initialGateway) ''content-service'' = None
   \<and> createServiceProxy ''content-service'' getPosts (worldAt 100000 (Inl NetworkError) (Answered 200 ''ok''))
        initialGateway =
       (Json 503 ''Service content-service is not available'', initialGateway)"
proof -
  let ?w = "worldAt 100000 (Inl NetworkError) (Answered 200 ''ok'')"
  have r: "refreshIfNeeded ?w initialGateway = initialGateway"
    by (simp add: refreshIfNeeded_def refreshServiceCache_cases)
  have c: "serviceCache (refreshIfNeeded ?w initialGateway) ''content-service'' = None"
    by (simp add: r)
  have "createServiceProxy ''content-service'' getPosts ?w initialGateway =
       (Json 503 ''Service content-service is not available'', initialGateway)"
    using no_cached_instance_503[OF logicalName_content, of ?w initialGateway] c
    by (simp add: r)
  with logicalName_content c show ?thesis by blast
qed

text \<open>
  The claim as the specification words it fails: the cache holds no active instance for
  the name, only a stale one, and the request is proxied to it.
\<close>

theorem no_healthy_instance_counterexample:
  "filter (\<lambda>s. status s = ''active'')
     (case serviceCache (cached [instStale] 90000) ''content-service'' of
        None \<Rightarrow> [] | Some xs \<Rightarrow> xs) = []
   \<and> fst (createServiceProxy ''content-service'' getPosts
            (worldAt 100000 (Inl NetworkError) (Answered 200 ''ok'')) (cached [instStale] 90000)) =
       Relayed 200 ''ok''"
  by (simp add: createServiceProxy_def refreshIfNeeded_def SERVICE_CACHE_TTL_def
      getServiceInstance_def)

subsection \<open>The refresh on the request path\<close>

text \<open>
  Claim C5, as the code has it. The handler awaits the refresh before it selects. While the
  cache is younger than the time to live, the handler makes no fetch: the state it selects
  from is the current one, and neither the registry nor the refresh clock can change its
  result. Once the cache is as old as the time to live, the handler selects from the state
  that the awaited refresh leaves: when that refresh completes, the instance is taken from
  the list the registry has just returned, and when it does not, from the prior cache.
\<close>

theorem handler_awaits_refresh_when_stale:
  "(clockHandler w - lastCacheUpdate st < SERVICE_CACHE_TTL \<longrightarrow>
      refreshIfNeeded w st = st
    \<and> createServiceProxy n req (w\<lparr>clockRefresh := c, registry := r\<rparr>) st = createServiceProxy n req w st)
   \<and> (SERVICE_CACHE_TTL \<le> clockHandler w - lastCacheUpdate st \<and>
       refreshCompletes (clockRefresh w) (Inr services) st \<and> registry w = Inr services \<longrightarrow>
        fst (getServiceInstance n (refreshIfNeeded w st)) =
          (if filter (\<lambda>s. name s = n) services = [] then None
           else Some (filter (\<lambda>s. name s = n) services !
                      (selectorOf st n mod length (filter (\<lambda>s. name s = n) services)))))
   \<and> (SERVICE_CACHE_TTL \<le> clockHandler w - lastCacheUpdate st \<and>
       \<not> refreshCompletes (clockRefresh w) (registry w) st \<longrightarrow>
        refreshIfNeeded w st = st)"
proof -
  have a: "refreshIfNeeded w st = st
    \<and> createServiceProxy n req (w\<lparr>clockRefresh := c, registry := r\<rparr>) st = createServiceProxy n req w st"
    if "clockHandler w - lastCacheUpdate st < SERVICE_CACHE_TTL"
    using that
    by (simp add: createServiceProxy_def refreshIfNeeded_def
        split: prod.splits option.splits proxied.splits)
  have b: "fst (getServiceInstance n (refreshIfNeeded w st)) =
          (if filter (\<lambda>s. name s = n) services = [] then None
           else Some (filter (\<lambda>s. name s = n) services !
                      (selectorOf st n mod length (filter (\<lambda>s. name s = n) services))))"
    if h: "SERVICE_CACHE_TTL \<le> clockHandler w - lastCacheUpdate st"
      "refreshCompletes (clockRefresh w) (Inr services) st" "registry w = Inr services"
  proof -
    let ?st1 = "st\<lparr>serviceCache := groupByName services, lastCacheUpdate := clockRefresh w\<rparr>"
    have r: "refreshIfNeeded w st = ?st1"
      using refreshIfNeeded_stale[OF h(1)] refreshServiceCache_complete[OF h(2)] h(3) by simp
    have s: "selectorOf ?st1 n = selectorOf st n" by (simp add: selectorOf_def)
    show ?thesis
    proof (cases "filter (\<lambda>s. name s = n) services = []")
      case True
      then have "serviceCache ?st1 n = None" by (simp add: groupByName_def)
      then show ?thesis using True r by (simp add: getServiceInstance_empty)
    next
      case False
      then have "serviceCache ?st1 n = Some (filter (\<lambda>s. name s = n) services)"
        by (simp add: groupByName_def)
      from getServiceInstance_step[OF this False] show ?thesis using False r s by simp
    qed
  qed
  have c: "refreshIfNeeded w st = st"
    if "SERVICE_CACHE_TTL \<le> clockHandler w - lastCacheUpdate st"
      "\<not> refreshCompletes (clockRefresh w) (registry w) st"
    using refreshIfNeeded_stale[OF that(1)] refreshServiceCache_incomplete[OF that(2)] by simp
  from a b c show ?thesis by blast
qed

theorem handler_awaits_refresh_when_stale_witness:
  "clockHandler (worldAt 100000 (Inr [instB]) (Answered 200 ''ok'')) - lastCacheUpdate (cached [instA] 90000)
     < SERVICE_CACHE_TTL
   \<and> refreshIfNeeded (worldAt 100000 (Inr [instB]) (Answered 200 ''ok'')) (cached [instA] 90000) =
       cached [instA] 90000
   \<and> SERVICE_CACHE_TTL \<le> clockHandler (worldAt 100000 (Inr [instB]) (Answered 200 ''ok''))
       - lastCacheUpdate (cached [instA] 0)
   \<and> refreshCompletes 100000 (Inr [instB]) (cached [instA] 0)
   \<and> fst (getServiceInstance ''content-service''
        (refreshIfNeeded (worldAt 100000 (Inr [instB]) (Answered 200 ''ok'')) (cached [instA] 0))) =
       Some instB
   \<and> \<not> refreshCompletes 100000 (Inl NetworkError) (cached [instA] 0)
   \<and> refreshIfNeeded (worldAt 100000 (Inl NetworkError) (Answered 200 ''ok'')) (cached [instA] 0) =
       cached [instA] 0"
proof -
  let ?w = "worldAt 100000 (Inr [instB]) (Answered 200 ''ok'')"
  let ?v = "worldAt 100000 (Inl NetworkError) (Answered 200 ''ok'')"
  have f: "clockHandler ?w - lastCacheUpdate (cached [instA] 90000) < SERVICE_CACHE_TTL"
    by (simp add: SERVICE_CACHE_TTL_def)
  have o: "SERVICE_CACHE_TTL \<le> clockHandler ?w - lastCacheUpdate (cached [instA] 0)"
    by (simp add: SERVICE_CACHE_TTL_def)
  have o': "SERVICE_CACHE_TTL \<le> clockHandler ?v - lastCacheUpdate (cached [instA] 0)"
    by (simp add: SERVICE_CACHE_TTL_def)
  have k: "refreshCompletes 100000 (Inr [instB]) (cached [instA] 0)"
    by (simp add: refreshCompletes_iff SERVICE_CACHE_TTL_def)
  have k': "\<not> refreshCompletes 100000 (Inl NetworkError) (cached [instA] 0)"
    by (simp add: refreshCompletes_iff)
  have 1: "refreshIfNeeded ?w (cached [instA] 90000) = cached [instA] 90000"
    using handler_awaits_refresh_when_stale[of ?w "cached [instA] 90000"] f by blast
  have 2: "fst (getServiceInstance ''content-service'' (refreshIfNeeded ?w (cached [instA] 0))) =
       Some instB"
    using handler_awaits_refresh_when_stale[where w = ?w and st = "cached [instA] 0"
        and services = "[instB]" and n = "''content-service''"] o k
    by (simp add: selectorOf_def)
  have 3: "refreshIfNeeded ?v (cached [instA] 0) = cached [instA] 0"
    using handler_awaits_refresh_when_stale[of ?v "cached [instA] 0"] o' k' by simp
  from f o k k' 1 2 3 show ?thesis by blast
qed

text \<open>
  The claim as the specification words it fails. The same request meets the same state at
  the same time; the cache holds nothing for the name. The reply follows the registry's
  answer to the fetch that this request starts, so the selection is made after that answer
  has arrived.
\<close>

theorem lookup_never_waits_counterexample:
  "fst (getServiceInstance ''content-service'' initialGateway) = None
   \<and> fst (createServiceProxy ''content-service'' getPosts
            (worldAt 100000 (Inr [instA]) (Answered 200 ''ok'')) initialGateway) = Relayed 200 ''ok''
   \<and> fst (createServiceProxy ''content-service'' getPosts
            (worldAt 100000 (Inl NetworkError) (Answered 200 ''ok'')) initialGateway) =
       Json 503 ''Service content-service is not available''"
  by (simp add: createServiceProxy_def refreshIfNeeded_def refreshServiceCache_cases
      SERVICE_CACHE_TTL_def getServiceInstance_def groupByName_def Let_def)

subsection \<open>Errors of the proxied call\<close>

text \<open>
  Claim C6, as the code has it. When the proxy reports an error of the call to the selected
  instance, \<open>onError\<close> answers the caller with status 500 and the message
  \<open>Service communication error\<close>. The handler never answers 504, and it answers 503 only
  when the selection returned no instance.
\<close>

theorem proxy_error_is_500:
  "(fst (getServiceInstance n (refreshIfNeeded w st)) = Some i \<and> proxied w (proxyOptions i) req = ProxyError \<longrightarrow>
      fst (createServiceProxy n req w st) = Json 500 ''Service communication error'')
   \<and> fst (createServiceProxy n req w st) \<noteq> Json 504 m
   \<and> (fst (createServiceProxy n req w st) = Json 503 m \<longrightarrow>
        fst (getServiceInstance n (refreshIfNeeded w st)) = None)"
proof -
  obtain o1 st2 where g: "getServiceInstance n (refreshIfNeeded w st) = (o1, st2)"
    by (cases "getServiceInstance n (refreshIfNeeded w st)")
  show ?thesis
  proof (cases o1)
    case None
    then show ?thesis using g createServiceProxy_None[where n = n and req = req and w = w
          and st = st and ?st2.0 = st2]
      by simp
  next
    case (Some j)
    have p: "createServiceProxy n req w st =
        (case proxied w (proxyOptions j) req of
           Answered s b \<Rightarrow> (Relayed s b, st2)
         | ProxyError \<Rightarrow> (Json 500 ''Service communication error'', st2)
         | Thrown \<Rightarrow> (Json 500 ''Gateway error'', st2))"
      using g Some createServiceProxy_Some[where n = n and req = req and w = w and st = st
          and i = j and ?st2.0 = st2]
      by simp
    show ?thesis using g Some by (auto simp: p split: proxied.splits)
  qed
qed

theorem proxy_error_is_500_witness:
  "fst (getServiceInstance ''content-service''
      (refreshIfNeeded (worldAt 100000 (Inl NetworkError) ProxyError) (cached [instA] 90000))) = Some instA
   \<and> proxied (worldAt 100000 (Inl NetworkError) ProxyError) (proxyOptions instA) getPosts = ProxyError
   \<and> fst (createServiceProxy ''content-service'' getPosts (worldAt 100000 (Inl NetworkError) ProxyError)
        (cached [instA] 90000)) = Json 500 ''Service communication error''
   \<and> fst (createServiceProxy ''content-service'' getPosts (worldAt 100000 (Inl NetworkError) ProxyError)
        initialGateway) = Json 503 ''Service content-service is not available''
   \<and> fst (getServiceInstance ''content-service''
      (refreshIfNeeded (worldAt 100000 (Inl NetworkError) ProxyError) initialGateway)) = None"
proof -
  let ?w = "worldAt 100000 (Inl NetworkError) ProxyError"
  have s: "fst (getServiceInstance ''content-service'' (refreshIfNeeded ?w (cached [instA] 90000)))
      = Some instA"
    by (simp add: refreshIfNeeded_def SERVICE_CACHE_TTL_def getServiceInstance_def Let_def)
  have p: "proxied ?w (proxyOptions instA) getPosts = ProxyError" by simp
  have 1: "fst (createServiceProxy ''content-service'' getPosts ?w (cached [instA] 90000)) =
      Json 500 ''Service communication error''"
    using proxy_error_is_500[where n = "''content-service''" and w = ?w and req = getPosts
        and st = "cached [instA] 90000" and i = instA] s p by blast
  have 2: "fst (createServiceProxy ''content-service'' getPosts ?w initialGateway) =
      Json 503 ''Service content-service is not available''"
    by (simp add: createServiceProxy_def refreshIfNeeded_def refreshServiceCache_cases
        getServiceInstance_def)
  have 3: "fst (getServiceInstance ''content-service'' (refreshIfNeeded ?w initialGateway)) = None"
    using proxy_error_is_500[where n = "''content-service''" and w = ?w and req = getPosts
        and st = initialGateway] 2
    by blast
  from s p 1 2 3 show ?thesis by blast
qed

text \<open>
  The claim as the specification words it fails: the upstream call to a cached instance
  fails, and the caller receives the internal-error status 500, neither 503 nor 504.
\<close>

theorem gateway_status_counterexample:
  "fst (createServiceProxy ''content-service'' getPosts (worldAt 100000 (Inl NetworkError) ProxyError)
        (cached [instA] 90000)) = Json 500 ''Service communication error''
   \<and> Json 500 ''Service communication error'' \<noteq> Json 503 ''Service communication error''
   \<and> Json 500 ''Service communication error'' \<noteq> Json 504 ''Service communication error''"
  by (simp add: createServiceProxy_def refreshIfNeeded_def SERVICE_CACHE_TTL_def
      getServiceInstance_def Let_def onError_def)

subsection \<open>Correlation id\<close>

text \<open>
  Claim C7, as the code has it. A non-empty inbound \<open>x-correlation-id\<close> is set unchanged on
  the outbound request. When the header is absent or empty, the outbound id is
  \<open>req-\<close>, the clock reading, a dash and the random string; two such ids are equal only
  when clock reading and random string are. In every case the outbound request carries a
  non-empty \<open>x-correlation-id\<close>. The gateway does not echo the id to the caller: a reply
  that the gateway writes itself has no \<open>x-correlation-id\<close>, and a relayed reply has the
  one of the instance's answer, if any.
\<close>

theorem correlation_id_outbound:
  "(headers req ''x-correlation-id'' = Some v \<and> v \<noteq> [] \<longrightarrow>
      outHeaders (onProxyReq stringify now random req pr) ''x-correlation-id'' = Some v)
   \<and> (headers req ''x-correlation-id'' = None \<or> headers req ''x-correlation-id'' = Some [] \<longrightarrow>
        outHeaders (onProxyReq stringify now random req pr) ''x-correlation-id'' =
          Some (freshId now random))
   \<and> (\<exists>c. outHeaders (onProxyReq stringify now random req pr) ''x-correlation-id'' = Some c \<and> c \<noteq> [])
   \<and> (CHR ''-'' \<notin> set r1 \<and> CHR ''-'' \<notin> set r2 \<and> freshId n1 r1 = freshId n2 r2 \<longrightarrow>
        n1 = n2 \<and> r1 = r2)
   \<and> (fst (createServiceProxy n req w st) = Json s m \<longrightarrow>
        replyCorrelationId answerHeaders n req w st = None)
   \<and> (fst (createServiceProxy n req w st) = Relayed s b \<longrightarrow>
        replyCorrelationId answerHeaders n req w st = answerHeaders ''x-correlation-id'')"
proof -
  note c = onProxyReq_correlation[of stringify now random req pr]
  have a: "headers req ''x-correlation-id'' = Some v \<and> v \<noteq> [] \<longrightarrow>
      outHeaders (onProxyReq stringify now random req pr) ''x-correlation-id'' = Some v"
    by (simp add: c)
  have b: "headers req ''x-correlation-id'' = None \<or> headers req ''x-correlation-id'' = Some [] \<longrightarrow>
        outHeaders (onProxyReq stringify now random req pr) ''x-correlation-id'' =
          Some (freshId now random)"
    by (auto simp: c)
  have f: "freshId now random \<noteq> []" by (simp add: freshId_def)
  have e: "\<exists>c. outHeaders (onProxyReq stringify now random req pr) ''x-correlation-id'' = Some c
      \<and> c \<noteq> []"
    using f by (simp add: c split: option.splits)
  have i: "CHR ''-'' \<notin> set r1 \<and> CHR ''-'' \<notin> set r2 \<and> freshId n1 r1 = freshId n2 r2 \<longrightarrow>
        n1 = n2 \<and> r1 = r2"
    using freshId_inj by blast
  have j: "fst (createServiceProxy n req w st) = Json s m \<longrightarrow>
        replyCorrelationId answerHeaders n req w st = None"
    using replyCorrelationId_Json by blast
  have r: "fst (createServiceProxy n req w st) = Relayed s b \<longrightarrow>
        replyCorrelationId answerHeaders n req w st = answerHeaders ''x-correlation-id''"
    using replyCorrelationId_Relayed by blast
  from a b e i j r show ?thesis by blast
qed

theorem correlation_id_outbound_witness:
  "headers \<lparr>originalUrl = ''/api/content/posts'', headers = [''x-correlation-id'' \<mapsto> ''abc123''],
            user = None\<rparr> ''x-correlation-id'' = Some ''abc123''
   \<and> outHeaders
       (onProxyReq (\<lambda>rs. ''[]'') 1700000000000 ''k3j2h1g0''
          \<lparr>originalUrl = ''/api/content/posts'', headers = [''x-correlation-id'' \<mapsto> ''abc123''],
           user = None\<rparr>
          \<lparr>reqMethod = ''GET'', path = ''/api/content/posts'',
           outHeaders = [''x-correlation-id'' \<mapsto> ''abc123''], body = ''''\<rparr>)
       ''x-correlation-id'' = Some ''abc123''
   \<and> headers \<lparr>originalUrl = ''/api/content/posts'', headers = Map.empty, user = None\<rparr>
       ''x-correlation-id'' = None
   \<and> outHeaders
       (onProxyReq (\<lambda>rs. ''[]'') 1700000000000 ''k3j2h1g0''
          \<lparr>originalUrl = ''/api/content/posts'', headers = Map.empty, user = None\<rparr>
          \<lparr>reqMethod = ''GET'', path = ''/api/content/posts'', outHeaders = Map.empty, body = ''''\<rparr>)
       ''x-correlation-id'' = Some ''req-1700000000000-k3j2h1g0''
   \<and> fst (createServiceProxy ''content-service'' (withCorrelationId ''abc123'')
        (worldAt 100000 (Inl NetworkError) (Answered 200 ''ok'')) (cached [instA] 90000)) =
       Relayed 200 ''ok''
   \<and> replyCorrelationId [''x-correlation-id'' \<mapsto> ''abc123''] ''content-service''
        (withCorrelationId ''abc123'')
        (worldAt 100000 (Inl NetworkError) (Answered 200 ''ok'')) (cached [instA] 90000) =
       Some ''abc123''
   \<and> fst (createServiceProxy ''content-service'' (withCorrelationId ''abc123'')
        (worldAt 100000 (Inl NetworkError) (Answered 200 ''ok'')) initialGateway) =
       Json 503 ''Service content-service is not available''
   \<and> replyCorrelationId [''x-correlation-id'' \<mapsto> ''abc123''] ''content-service''
        (withCorrelationId ''abc123'')
        (worldAt 100000 (Inl NetworkError) (Answered 200 ''ok'')) initialGateway = None"
proof -
  let ?req = "\<lparr>originalUrl = ''/api/content/posts'', headers = [''x-correlation-id'' \<mapsto> ''abc123''],
            user = None\<rparr>"
  let ?pr = "\<lparr>reqMethod = ''GET'', path = ''/api/content/posts'',
           outHeaders = [''x-correlation-id'' \<mapsto> ''abc123''], body = ''''\<rparr>"
  let ?bare = "\<lparr>originalUrl = ''/api/content/posts'', headers = Map.empty, user = None\<rparr>"
  let ?prBare = "\<lparr>reqMethod = ''GET'', path = ''/api/content/posts'', outHeaders = Map.empty,
           body = ''''\<rparr>"
  have h: "headers ?req ''x-correlation-id'' = Some ''abc123''" by simp
  have h0: "headers ?bare ''x-correlation-id'' = None" by simp
  have v: "''abc123'' \<noteq> []" by simp
  have f: "freshId 1700000000000 ''k3j2h1g0'' = ''req-1700000000000-k3j2h1g0''"
    by (simp add: freshId_def showInt_def showNat.simps)
  have 1: "outHeaders (onProxyReq (\<lambda>rs. ''[]'') 1700000000000 ''k3j2h1g0'' ?req ?pr)
      ''x-correlation-id'' = Some ''abc123''"
    by (rule correlation_id_outbound[where req = ?req and v = "''abc123''" and pr = ?pr
          and stringify = "\<lambda>rs. ''[]''" and now = 1700000000000 and random = "''k3j2h1g0''",
          THEN conjunct1, THEN mp, OF conjI[OF h v]])
  have "outHeaders (onProxyReq (\<lambda>rs. ''[]'') 1700000000000 ''k3j2h1g0'' ?bare ?prBare)
      ''x-correlation-id'' = Some (freshId 1700000000000 ''k3j2h1g0'')"
    by (rule correlation_id_outbound[where req = ?bare and pr = ?prBare
          and stringify = "\<lambda>rs. ''[]''" and now = 1700000000000 and random = "''k3j2h1g0''",
          THEN conjunct2, THEN conjunct1, THEN mp, OF disjI1[OF h0]])
  then have 2: "outHeaders (onProxyReq (\<lambda>rs. ''[]'') 1700000000000 ''k3j2h1g0'' ?bare ?prBare)
      ''x-correlation-id'' = Some ''req-1700000000000-k3j2h1g0''"
    by (simp only: f)
  let ?w = "worldAt 100000 (Inl NetworkError) (Answered 200 ''ok'')"
  let ?ah = "[''x-correlation-id'' \<mapsto> ''abc123'']"
  have p: "fst (createServiceProxy ''content-service'' (withCorrelationId ''abc123'') ?w
      (cached [instA] 90000)) = Relayed 200 ''ok''"
    by (simp add: createServiceProxy_def refreshIfNeeded_def SERVICE_CACHE_TTL_def
        getServiceInstance_def Let_def)
  have q: "fst (createServiceProxy ''content-service'' (withCorrelationId ''abc123'') ?w
      initialGateway) = Json 503 ''Service content-service is not available''"
    by (simp add: createServiceProxy_def refreshIfNeeded_def refreshServiceCache_cases
        getServiceInstance_def)
  have "replyCorrelationId ?ah ''content-service'' (withCorrelationId ''abc123'') ?w
      (cached [instA] 90000) = ?ah ''x-correlation-id''"
    using correlation_id_outbound[where n = "''content-service''"
        and req = "withCorrelationId ''abc123''" and w = ?w and st = "cached [instA] 90000"
        and answerHeaders = ?ah and s = 200 and b = "''ok''"] p
    by blast
  then have 3: "replyCorrelationId ?ah ''content-service'' (withCorrelationId ''abc123'') ?w
      (cached [instA] 90000) = Some ''abc123''"
    by simp
  have 4: "replyCorrelationId ?ah ''content-service'' (withCorrelationId ''abc123'') ?w
      initialGateway = None"
    using correlation_id_outbound[where n = "''content-service''"
        and req = "withCorrelationId ''abc123''" and w = ?w and st = initialGateway
        and answerHeaders = ?ah and s = 503
        and m = "''Service content-service is not available''"] q
    by blast
  from h 1 h0 2 p 3 q 4 show ?thesis by blast
qed

text \<open>
  The claim as the specification words it fails twice. For a request that carries the
  header with an empty value, the outbound request carries a generated id, not that
  value. And the id is not echoed: a request with the id \<open>abc123\<close> is relayed to an
  instance whose answer has no such header, or is answered 503 by the gateway, and in
  both cases the reply to the caller has no \<open>x-correlation-id\<close>.
\<close>

theorem correlation_id_unchanged_counterexample:
  "headers \<lparr>originalUrl = ''/api/content/posts'', headers = [''x-correlation-id'' \<mapsto> ''''],
            user = None\<rparr> ''x-correlation-id'' = Some ''''
   \<and> outHeaders
       (onProxyReq (\<lambda>rs. ''[]'') 1700000000000 ''k3j2h1g0''
          \<lparr>originalUrl = ''/api/content/posts'', headers = [''x-correlation-id'' \<mapsto> ''''],
           user = None\<rparr>
          \<lparr>reqMethod = ''GET'', path = ''/api/content/posts'',
           outHeaders = [''x-correlation-id'' \<mapsto> ''''], body = ''''\<rparr>)
       ''x-correlation-id'' = Some ''req-1700000000000-k3j2h1g0''
   \<and> headers (withCorrelationId ''abc123'') ''x-correlation-id'' = Some ''abc123''
   \<and> fst (createServiceProxy ''content-service'' (withCorrelationId ''abc123'')
        (worldAt 100000 (Inl NetworkError) (Answered 200 ''ok'')) (cached [instA] 90000)) =
       Relayed 200 ''ok''
   \<and> replyCorrelationId Map.empty ''content-service'' (withCorrelationId ''abc123'')
        (worldAt 100000 (Inl NetworkError) (Answered 200 ''ok'')) (cached [instA] 90000) = None
   \<and> fst (createServiceProxy ''content-service'' (withCorrelationId ''abc123'')
        (worldAt 100000 (Inl NetworkError) (Answered 200 ''ok'')) initialGateway) =
       Json 503 ''Service content-service is not available''
   \<and> replyCorrelationId Map.empty ''content-service'' (withCorrelationId ''abc123'')
        (worldAt 100000 (Inl NetworkError) (Answered 200 ''ok'')) initialGateway = None"
proof -
  let ?w = "worldAt 100000 (Inl NetworkError) (Answered 200 ''ok'')"
  have e: "outHeaders
       (onProxyReq (\<lambda>rs. ''[]'') 1700000000000 ''k3j2h1g0''
          \<lparr>originalUrl = ''/api/content/posts'', headers = [''x-correlation-id'' \<mapsto> ''''],
           user = None\<rparr>
          \<lparr>reqMethod = ''GET'', path = ''/api/content/posts'',
           outHeaders = [''x-correlation-id'' \<mapsto> ''''], body = ''''\<rparr>)
       ''x-correlation-id'' = Some ''req-1700000000000-k3j2h1g0''"
    by (simp add: onProxyReq_correlation freshId_def showInt_def showNat.simps)
  have h: "headers (withCorrelationId ''abc123'') ''x-correlation-id'' = Some ''abc123''"
    by (simp add: withCorrelationId_def)
  have p: "fst (createServiceProxy ''content-service'' (withCorrelationId ''abc123'') ?w
      (cached [instA] 90000)) = Relayed 200 ''ok''"
    by (simp add: createServiceProxy_def refreshIfNeeded_def SERVICE_CACHE_TTL_def
        getServiceInstance_def Let_def)
  have q: "fst (createServiceProxy ''content-service'' (withCorrelationId ''abc123'') ?w
      initialGateway) = Json 503 ''Service content-service is not available''"
    by (simp add: createServiceProxy_def refreshIfNeeded_def refreshServiceCache_cases
        getServiceInstance_def)
  have 1: "replyCorrelationId Map.empty ''content-service'' (withCorrelationId ''abc123'') ?w
      (cached [instA] 90000) = None"
    by (simp add: replyCorrelationId_def p)
  have 2: "replyCorrelationId Map.empty ''content-service'' (withCorrelationId ''abc123'') ?w
      initialGateway = None"
    by (simp add: replyCorrelationId_def q)
  from e h p q 1 2 show ?thesis by simp
qed

subsection \<open>The token gate\<close>

text \<open>
  Claim C8, as the code has it. The gate reads the second space-separated field of the
  \<open>authorization\<close> header as the token and never looks at the first. A request with no
  header, or an empty one, is rejected with 401; so is one whose header has no second
  field or an empty one. Otherwise the token is verified: a token that fails is rejected
  with 403, and for one that passes the decoded payload is attached as \<open>user\<close> and the
  request goes on. A header made of a scheme word, one space and a token without spaces
  has that token as its second field, whatever the scheme word. On a protected route a
  rejected request does not reach the proxy handler, and an accepted one reaches it with
  the \<open>user\<close> attached. For a request with a \<open>user\<close>, the hook sets \<open>x-user-id\<close>
  to the id and \<open>x-user-roles\<close> to the serialised roles, the empty list when there are
  none.
\<close>

theorem token_gate:
  "(headers req ''authorization'' = None \<or> headers req ''authorization'' = Some [] \<longrightarrow>
      authenticateJWT verify req = Rejected (Json 401 ''Authorization header missing''))
   \<and> (headers req ''authorization'' = Some h \<and> h \<noteq> [] \<and>
       (at (split CHR '' '' h) 1 = None \<or> at (split CHR '' '' h) 1 = Some []) \<longrightarrow>
        authenticateJWT verify req = Rejected (Json 401 ''Token not provided''))
   \<and> (headers req ''authorization'' = Some h \<and> h \<noteq> [] \<and>
       at (split CHR '' '' h) 1 = Some t \<and> t \<noteq> [] \<and> verify t = None \<longrightarrow>
        authenticateJWT verify req = Rejected (Json 403 ''Invalid or expired token''))
   \<and> (headers req ''authorization'' = Some h \<and> h \<noteq> [] \<and>
       at (split CHR '' '' h) 1 = Some t \<and> t \<noteq> [] \<and> verify t = Some p \<longrightarrow>
        authenticateJWT verify req = Next (req\<lparr>user := Some p\<rparr>))
   \<and> (CHR '' '' \<notin> set scheme \<and> CHR '' '' \<notin> set tok \<longrightarrow>
        at (split CHR '' '' (scheme @ '' '' @ tok)) 1 = Some tok)
   \<and> (authenticateJWT verify req = Rejected r \<longrightarrow>
        protectedRoute verify n req w st = (r, st))
   \<and> (authenticateJWT verify req = Next req1 \<longrightarrow>
        protectedRoute verify n req w st = createServiceProxy n req1 w st)
   \<and> (user req1 = Some p \<longrightarrow>
        outHeaders (onProxyReq stringify now random req1 pr) ''x-user-id'' = Some (id_p p) \<and>
        outHeaders (onProxyReq stringify now random req1 pr) ''x-user-roles'' =
          Some (stringify (case roles p of None \<Rightarrow> [] | Some rs \<Rightarrow> rs)))"
proof -
  have a: "headers req ''authorization'' = None \<or> headers req ''authorization'' = Some [] \<longrightarrow>
      authenticateJWT verify req = Rejected (Json 401 ''Authorization header missing'')"
    by (auto simp: authenticateJWT_def)
  have b: "headers req ''authorization'' = Some h \<and> h \<noteq> [] \<and>
       (at (split CHR '' '' h) 1 = None \<or> at (split CHR '' '' h) 1 = Some []) \<longrightarrow>
        authenticateJWT verify req = Rejected (Json 401 ''Token not provided'')"
    by (auto simp: authenticateJWT_def)
  have c: "headers req ''authorization'' = Some h \<and> h \<noteq> [] \<and>
       at (split CHR '' '' h) 1 = Some t \<and> t \<noteq> [] \<and> verify t = None \<longrightarrow>
        authenticateJWT verify req = Rejected (Json 403 ''Invalid or expired token'')"
    by (simp add: authenticateJWT_def)
  have d: "headers req ''authorization'' = Some h \<and> h \<noteq> [] \<and>
       at (split CHR '' '' h) 1 = Some t \<and> t \<noteq> [] \<and> verify t = Some p \<longrightarrow>
        authenticateJWT verify req = Next (req\<lparr>user := Some p\<rparr>)"
    by (simp add: authenticateJWT_def)
  have e: "CHR '' '' \<notin> set scheme \<and> CHR '' '' \<notin> set tok \<longrightarrow>
        at (split CHR '' '' (scheme @ '' '' @ tok)) 1 = Some tok"
    using split_second[of "CHR '' ''" scheme tok] by simp
  have f: "authenticateJWT verify req = Rejected r \<longrightarrow>
        protectedRoute verify n req w st = (r, st)"
    by (simp add: protectedRoute_def)
  have g: "authenticateJWT verify req = Next req1 \<longrightarrow>
        protectedRoute verify n req w st = createServiceProxy n req1 w st"
    by (simp add: protectedRoute_def)
  have i: "user req1 = Some p \<longrightarrow>
        outHeaders (onProxyReq stringify now random req1 pr) ''x-user-id'' = Some (id_p p) \<and>
        outHeaders (onProxyReq stringify now random req1 pr) ''x-user-roles'' =
          Some (stringify (case roles p of None \<Rightarrow> [] | Some rs \<Rightarrow> rs))"
    using onProxyReq_identity by blast
  from a b c d e f g i show ?thesis by blast
qed

theorem token_gate_witness:
  "headers (withAuthorization ''Bearer good.jwt'') ''authorization'' = Some ''Bearer good.jwt''
   \<and> at (split CHR '' '' ''Bearer good.jwt'') 1 = Some ''good.jwt''
   \<and> verifyExample ''good.jwt'' = Some alice
   \<and> authenticateJWT verifyExample (withAuthorization ''Bearer good.jwt'') =
       Next ((withAuthorization ''Bearer good.jwt'')\<lparr>user := Some alice\<rparr>)
   \<and> at (split CHR '' '' ''Bearer bad.jwt'') 1 = Some ''bad.jwt''
   \<and> verifyExample ''bad.jwt'' = None
   \<and> authenticateJWT verifyExample (withAuthorization ''Bearer bad.jwt'') =
       Rejected (Json 403 ''Invalid or expired token'')
   \<and> at (split CHR '' '' ''Bearer'') 1 = None
   \<and> authenticateJWT verifyExample (withAuthorization ''Bearer'') =
       Rejected (Json 401 ''Token not provided'')
   \<and> headers \<lparr>originalUrl = ''/admin/dashboard'', headers = Map.empty, user = None\<rparr>
       ''authorization'' = None
   \<and> authenticateJWT verifyExample
        \<lparr>originalUrl = ''/admin/dashboard'', headers = Map.empty, user = None\<rparr> =
       Rejected (Json 401 ''Authorization header missing'')
   \<and> protectedRoute verifyExample ''frontend'' (withAuthorization ''Bearer bad.jwt'')
        (worldAt 100000 (Inl NetworkError) ProxyError) initialGateway =
       (Json 403 ''Invalid or expired token'', initialGateway)"
proof -
  let ?good = "withAuthorization ''Bearer good.jwt''"
  let ?bad = "withAuthorization ''Bearer bad.jwt''"
  let ?none = "withAuthorization ''Bearer''"
  let ?bare = "\<lparr>originalUrl = ''/admin/dashboard'', headers = Map.empty, user = None\<rparr>"
  have hg: "headers ?good ''authorization'' = Some ''Bearer good.jwt''"
    by (simp add: withAuthorization_def)
  have hb: "headers ?bad ''authorization'' = Some ''Bearer bad.jwt''"
    by (simp add: withAuthorization_def)
  have hn: "headers ?none ''authorization'' = Some ''Bearer''"
    by (simp add: withAuthorization_def)
  have h0: "headers ?bare ''authorization'' = None" by simp
  have tg: "at (split CHR '' '' ''Bearer good.jwt'') 1 = Some ''good.jwt''"
    by (simp add: at_def)
  have tb: "at (split CHR '' '' ''Bearer bad.jwt'') 1 = Some ''bad.jwt''"
    by (simp add: at_def)
  have tn: "at (split CHR '' '' ''Bearer'') 1 = None"
    by (simp add: at_def)
  have vg: "verifyExample ''good.jwt'' = Some alice" by (simp add: verifyExample_def)
  have vb: "verifyExample ''bad.jwt'' = None" by (simp add: verifyExample_def)
  have 1: "authenticateJWT verifyExample ?good = Next (?good\<lparr>user := Some alice\<rparr>)"
    using token_gate[where req = ?good and verify = verifyExample and h = "''Bearer good.jwt''"
        and t = "''good.jwt''" and p = alice] hg tg vg
    by simp
  have 2: "authenticateJWT verifyExample ?bad = Rejected (Json 403 ''Invalid or expired token'')"
    using token_gate[where req = ?bad and verify = verifyExample and h = "''Bearer bad.jwt''"
        and t = "''bad.jwt''"] hb tb vb
    by simp
  have 3: "authenticateJWT verifyExample ?none = Rejected (Json 401 ''Token not provided'')"
    using token_gate[where req = ?none and verify = verifyExample and h = "''Bearer''"] hn tn
    by simp
  have 4: "authenticateJWT verifyExample ?bare = Rejected (Json 401 ''Authorization header missing'')"
    using token_gate[where req = ?bare and verify = verifyExample] h0
    by blast
  have 5: "protectedRoute verifyExample ''frontend'' ?bad
        (worldAt 100000 (Inl NetworkError) ProxyError) initialGateway =
       (Json 403 ''Invalid or expired token'', initialGateway)"
    using token_gate[where req = ?bad and verify = verifyExample
        and r = "Json 403 ''Invalid or expired token''" and n = "''frontend''"
        and w = "worldAt 100000 (Inl NetworkError) ProxyError" and st = initialGateway] 2
    by blast
  from hg tg vg 1 tb vb 2 tn 3 h0 4 5 show ?thesis by blast
qed

text \<open>
  The claim as the specification words it fails on requests whose credential is not a
  bearer credential: one with the scheme \<open>Basic\<close> is rejected with 403, not 401, and one
  with the scheme \<open>Token\<close> and a valid token is let through.
\<close>

theorem bearer_required_counterexample:
  "authenticateJWT verifyExample (withAuthorization ''Basic abc'') =
     Rejected (Json 403 ''Invalid or expired token'')
   \<and> authenticateJWT verifyExample (withAuthorization ''Token good.jwt'') =
       Next ((withAuthorization ''Token good.jwt'')\<lparr>user := Some alice\<rparr>)"
  by (simp add: authenticateJWT_def withAuthorization_def at_def verifyExample_def)

subsection \<open>Path rewriting and forwarding\<close>




text \<open>
  A remark on the routes. The services are mounted under \<open>/api/auth\<close>, \<open>/api/content\<close>
  and \<open>/admin\<close>, not under \<open>/api/\<close> and the service name, and every routed name is a
  logical name without pattern characters. A URL that continues a mount path with
  nothing, a slash or a query does not start with the pattern, so the callback passes it
  on whole; the example in the comment of the callback, \<open>/api/auth/login\<close> to \<open>/login\<close>,
  is not what it computes for the service name \<open>auth-service\<close>.
\<close>

lemma routed_names:
  "(mount, auth, n) \<in> set routes \<Longrightarrow> logicalName n \<and> regexLiteral n"
  by (auto simp: routes_def logicalName_def objectPrototypeKeys_def regexLiteral_def
      regexSpecial_def)

lemma mounted_paths_pass_unchanged:
  assumes "(mount, auth, n) \<in> set routes"
    and "rest = [] \<or> hd rest = CHR ''/'' \<or> hd rest = CHR ''?''"
  shows "pathRewrite n (mount @ rest) = mount @ rest"
proof -
  have "(mount = ''/api/auth'' \<and> n = ''auth-service'')
      \<or> (mount = ''/api/content/admin'' \<and> n = ''content-service'')
      \<or> (mount = ''/api/content'' \<and> n = ''content-service'')
      \<or> (mount = ''/admin'' \<and> n = ''frontend'')"
    using assms(1) by (auto simp: routes_def)
  then show ?thesis
    using assms(2) by (cases rest) (auto simp: pathRewrite_def Let_def)
qed

subsection \<open>Cold start\<close>

text \<open>
  Claim C10. The cache starts empty, so a selection from the initial state returns null for
  every logical name and leaves the state as it is. Over any sequence of requests and
  timer refreshes in which no refresh completes, the state stays the initial one and every
  request is answered 503 with the message that the service is not available, whatever
  the registry holds.
\<close>

theorem cold_start_unavailable:
  "serviceCache initialGateway = Map.empty
   \<and> (logicalName n \<longrightarrow> getServiceInstance n initialGateway = (None, initialGateway))
   \<and> ((\<forall>e \<in> set es. coldEvent e) \<longrightarrow> run es initialGateway = (notAvailable es, initialGateway))"
proof -
  have sel: "getServiceInstance n initialGateway = (None, initialGateway)" for n
    by (simp add: getServiceInstance_empty)
  have steps: "run es initialGateway = (notAvailable es, initialGateway)"
    if "\<forall>e \<in> set es. coldEvent e"
    using that
  proof (induction es)
    case Nil
    show ?case by simp
  next
    case (Cons e es)
    have rest: "run es initialGateway = (notAvailable es, initialGateway)"
      using Cons by simp
    show ?case
    proof (cases e)
      case (Request n req w)
      then have "\<not> (clockHandler w - lastCacheUpdate initialGateway \<ge> SERVICE_CACHE_TTL \<and>
             refreshCompletes (clockRefresh w) (registry w) initialGateway)"
        using Cons.prems by (simp add: coldEvent_def)
      then have "refreshIfNeeded w initialGateway = initialGateway"
        using refreshIfNeeded_fresh[of w initialGateway]
          refreshIfNeeded_stale[of w initialGateway]
          refreshServiceCache_incomplete[of "clockRefresh w" "registry w" initialGateway]
        by fastforce
      then have "createServiceProxy n req w initialGateway =
          (Json 503 (''Service '' @ n @ '' is not available''), initialGateway)"
        using createServiceProxy_None[where n = n and req = req and w = w
            and st = initialGateway and ?st2.0 = initialGateway] sel[of n]
        by simp
      then show ?thesis using Request rest by simp
    next
      case (Refresh now response)
      then have "refreshServiceCache now response initialGateway = initialGateway"
        using Cons.prems refreshServiceCache_incomplete by (simp add: coldEvent_def)
      then show ?thesis using Refresh rest by simp
    qed
  qed
  from sel steps show ?thesis by simp
qed

theorem cold_start_unavailable_witness:
  "logicalName ''content-service''
   \<and> getServiceInstance ''content-service'' initialGateway = (None, initialGateway)
   \<and> coldEvent (Refresh 100000 (Inl NetworkError))
   \<and> coldEvent (Request ''content-service'' getPosts (worldAt 100500 (Inl NetworkError) (Answered 200 ''ok'')))
   \<and> coldEvent (Request ''content-service'' getPosts (worldAt 30000 (Inr [instA]) (Answered 200 ''ok'')))
   \<and> run [Refresh 100000 (Inl NetworkError),
           Request ''content-service'' getPosts (worldAt 100500 (Inl NetworkError) (Answered 200 ''ok'')),
           Request ''content-service'' getPosts (worldAt 30000 (Inr [instA]) (Answered 200 ''ok''))]
        initialGateway =
       ([Json 503 ''Service content-service is not available'',
         Json 503 ''Service content-service is not available''], initialGateway)"
proof -
  let ?es = "[Refresh 100000 (Inl NetworkError),
              Request ''content-service'' getPosts (worldAt 100500 (Inl NetworkError) (Answered 200 ''ok'')),
              Request ''content-service'' getPosts (worldAt 30000 (Inr [instA]) (Answered 200 ''ok''))]"
  have c: "\<forall>e \<in> set ?es. coldEvent e"
    by (simp add: coldEvent_def refreshCompletes_iff SERVICE_CACHE_TTL_def)
  have g: "getServiceInstance ''content-service'' initialGateway = (None, initialGateway)"
    using cold_start_unavailable[where n = "''content-service''" and es = ?es] by simp
  have r: "run ?es initialGateway =
       ([Json 503 ''Service content-service is not available'',
         Json 503 ''Service content-service is not available''], initialGateway)"
    using cold_start_unavailable[where n = "''content-service''" and es = ?es] c by simp
  from c have "coldEvent (Refresh 100000 (Inl NetworkError))
      \<and> coldEvent (Request ''content-service'' getPosts (worldAt 100500 (Inl NetworkError) (Answered 200 ''ok'')))
      \<and> coldEvent (Request ''content-service'' getPosts (worldAt 30000 (Inr [instA]) (Answered 200 ''ok'')))"
    by simp
  with logicalName_content g r show ?thesis by blast
qed

end
